theory Spec2Isabelle
  imports Main "HOL-Library.Char_ord" "HOL-Library.List_Lexorder" "HOL-Library.Sublist"
begin

section \<open>Shallow embedding of \<^verbatim>\<open>frontend/render_build_diagnostics.py\<close>\<close>

text \<open>
  The script is one linear procedure over three kinds of effect: it prints, it reads the
  directory tree under \<^verbatim>\<open>ROOT\<close>, and it spawns child processes (which may change that
  tree). The model threads a state (the tree under \<^verbatim>\<open>ROOT\<close> and a log of the effects so
  far) through a state-and-exception monad. \<^verbatim>\<open>sys.exit\<close> and an uncaught exception both stop
  the run; everything the host decides (what is on the search path, what a child process
  does, what \<^verbatim>\<open>json.loads\<close> accepts) is a field of the record \<open>host\<close>.

  Strings are compared character by character (\<open>Char_ord\<close>), lists lexicographically
  (\<open>List_Lexorder\<close>); this is the order Python's \<^verbatim>\<open>sorted\<close> uses on \<^verbatim>\<open>str\<close> and on
  \<^verbatim>\<open>Path\<close> objects (a \<^verbatim>\<open>Path\<close> compares as the list of its segments).
\<close>

subsection \<open>Values, exceptions, events\<close>

datatype exn =
    JSONDecodeError string
  | IsADirectoryError
  | NotADirectoryError
  | FileNotFoundError
  | UnicodeDecodeError
  | PermissionError
  | AttributeError
  | OSError string

text \<open>Python values that the script prints or gets from \<^verbatim>\<open>json.loads\<close>. A \<^verbatim>\<open>Path\<close> is the
  list of its segments below \<^verbatim>\<open>ROOT\<close>.\<close>

datatype pyval =
    PNone
  | PBool bool
  | PInt int
  | PFloat string
  | PStr string
  | PList "pyval list"
  | PDict "(string \<times> pyval) list"
  | PPath "string list"
  | PExn exn

text \<open>The log: one event for each \<^verbatim>\<open>print\<close> call (with its arguments), each
  \<^verbatim>\<open>subprocess.run\<close> and each \<^verbatim>\<open>json.loads\<close>.\<close>

datatype event =
    Print "pyval list"
  | Spawn "string list"
  | JsonLoads string

text \<open>How a run stops early: \<^verbatim>\<open>sys.exit(code)\<close> or an exception nobody catches.\<close>

datatype outcome = SystemExit int | Uncaught exn

subsection \<open>The directory tree\<close>

text \<open>An entry is a regular file or a directory (its entries by name). A file carries what
  reading it as UTF-8 text gives: the text, or the exception that \<^verbatim>\<open>read_text\<close> raises on it
  (\<^verbatim>\<open>UnicodeDecodeError\<close> for bytes that are not UTF-8, \<^verbatim>\<open>PermissionError\<close>, another
  \<^verbatim>\<open>OSError\<close>). Symbolic links and special files are outside the model.\<close>

datatype node = File "exn + string" | Dir "(string \<times> node) list"

type_synonym path = "string list"

text \<open>\<^verbatim>\<open>ROOT / name\<close>: the entry of that name, when \<^verbatim>\<open>ROOT\<close> is a directory that has it.\<close>

fun child :: "node option \<Rightarrow> string \<Rightarrow> node option" where
  "child (Some (Dir es)) name = map_of es name"
| "child _ name = None"

fun lookup :: "node \<Rightarrow> path \<Rightarrow> node option" where
  "lookup t [] = Some t"
| "lookup (Dir es) (n # ps) = (case map_of es n of None \<Rightarrow> None | Some c \<Rightarrow> lookup c ps)"
| "lookup (File _) (n # ps) = None"

fun exists :: "node option \<Rightarrow> bool" where
  "exists None = False"
| "exists (Some _) = True"

fun is_dir :: "node option \<Rightarrow> bool" where
  "is_dir (Some (Dir _)) = True"
| "is_dir _ = False"

fun is_file :: "node option \<Rightarrow> bool" where
  "is_file (Some (File _)) = True"
| "is_file _ = False"

text \<open>\<^verbatim>\<open>path.iterdir()\<close>: the names in a directory.\<close>

fun iterdir :: "node \<Rightarrow> string list" where
  "iterdir (Dir es) = map fst es"
| "iterdir (File _) = []"

text \<open>\<^verbatim>\<open>path.rglob("*")\<close>: every path below a directory, files and directories alike,
  relative to it.\<close>

fun rglob :: "node \<Rightarrow> path list"
  and rglob_entries :: "(string \<times> node) list \<Rightarrow> path list" where
  "rglob (File _) = []"
| "rglob (Dir es) = rglob_entries es"
| "rglob_entries [] = []"
| "rglob_entries ((n, c) # es) = ([n] # map ((#) n) (rglob c)) @ rglob_entries es"

text \<open>A well-formed tree: in every directory the names are distinct, non-empty and free
  of the separator.\<close>

fun wf_node :: "node \<Rightarrow> bool"
  and wf_entries :: "(string \<times> node) list \<Rightarrow> bool" where
  "wf_node (File _) = True"
| "wf_node (Dir es) = (distinct (map fst es) \<and> wf_entries es)"
| "wf_entries [] = True"
| "wf_entries ((n, c) # es) = (n \<noteq> [] \<and> CHR ''/'' \<notin> set n \<and> wf_node c \<and> wf_entries es)"

subsection \<open>Strings\<close>

text \<open>\<^verbatim>\<open>sep.join(xs)\<close>\<close>

fun join :: "string \<Rightarrow> string list \<Rightarrow> string" where
  "join sep [] = []"
| "join sep [x] = x"
| "join sep (x # y # ys) = x @ sep @ join sep (y # ys)"

text \<open>\<^verbatim>\<open>str(rel)\<close> of a relative path.\<close>

definition path_str :: "path \<Rightarrow> string" where
  "path_str p = join ''/'' p"

text \<open>\<^verbatim>\<open>str(n)\<close> of an integer.\<close>

fun str_nat :: "nat \<Rightarrow> string" where
  "str_nat n =
     (if n < 10 then [''0123456789'' ! n]
      else str_nat (n div 10) @ [''0123456789'' ! (n mod 10)])"

declare str_nat.simps [simp del]

definition str_int :: "int \<Rightarrow> string" where
  "str_int i = (if i < 0 then CHR ''-'' # str_nat (nat (- i)) else str_nat (nat i))"

subsection \<open>The host and the state\<close>

text \<open>What \<^verbatim>\<open>subprocess.run\<close> gives for a command in a given tree: the child's exit status,
  its output and the tree it leaves, or the exception of a child that could not be started.\<close>

datatype completed = Completed int string "node option" | SpawnError exn

text \<open>The host: what the standard library reports (working directory, the string of
  \<^verbatim>\<open>ROOT\<close>, interpreter version, platform, environment), \<^verbatim>\<open>shutil.which\<close>, \<^verbatim>\<open>subprocess.run\<close>,
  \<^verbatim>\<open>json.loads\<close> (the value, or the description of the exception it raises) and
  \<^verbatim>\<open>json.dumps\<close> with \<^verbatim>\<open>indent=2\<close>.\<close>

record host =
  getcwd :: string
  root_str :: string
  version :: string
  platform :: string
  environ :: "(string \<times> string) list"
  which :: "string \<Rightarrow> string option"
  exec :: "string list \<Rightarrow> node option \<Rightarrow> completed"
  json_loads :: "string \<Rightarrow> string + pyval"
  json_dumps :: "pyval \<Rightarrow> string"

record state =
  fs :: "node option"
  log :: "event list"

type_synonym 'a prog = "state \<Rightarrow> (outcome + 'a) \<times> state"

definition return :: "'a \<Rightarrow> 'a prog" where
  "return a = (\<lambda>s. (Inr a, s))"

definition bind :: "'a prog \<Rightarrow> ('a \<Rightarrow> 'b prog) \<Rightarrow> 'b prog" where
  "bind m f = (\<lambda>s. case m s of (Inl e, s') \<Rightarrow> (Inl e, s') | (Inr a, s') \<Rightarrow> f a s')"

definition seq :: "unit prog \<Rightarrow> 'b prog \<Rightarrow> 'b prog" where
  "seq m n = bind m (\<lambda>_. n)"

fun block :: "unit prog list \<Rightarrow> unit prog" where
  "block [] = return ()"
| "block (p # ps) = seq p (block ps)"

definition emit :: "event \<Rightarrow> unit prog" where
  "emit e = (\<lambda>s. (Inr (), s\<lparr>log := log s @ [e]\<rparr>))"

definition print :: "pyval list \<Rightarrow> unit prog" where
  "print args = emit (Print args)"

definition sys_exit :: "int \<Rightarrow> 'a prog" where
  "sys_exit code = (\<lambda>s. (Inl (SystemExit code), s))"

definition raise :: "exn \<Rightarrow> 'a prog" where
  "raise e = (\<lambda>s. (Inl (Uncaught e), s))"

text \<open>The exit status of the process: 0 when \<^verbatim>\<open>main\<close> returns, the argument of
  \<^verbatim>\<open>sys.exit\<close>, 1 after an uncaught exception.\<close>

fun exit_code :: "outcome + unit \<Rightarrow> int" where
  "exit_code (Inr _) = 0"
| "exit_code (Inl (SystemExit code)) = code"
| "exit_code (Inl (Uncaught _)) = 1"

subsection \<open>\<^verbatim>\<open>hr\<close>, \<^verbatim>\<open>run\<close>, \<^verbatim>\<open>safe_env_dump\<close>, \<^verbatim>\<open>ls_tree\<close>\<close>

definition hr :: "string \<Rightarrow> unit prog" where
  "hr title = block
     [print [PStr (CHR 0x0A # replicate 72 (CHR ''=''))],
      print [PStr title],
      print [PStr (replicate 72 (CHR ''=''))]]"

definition failure_banner :: "string list \<Rightarrow> int \<Rightarrow> string" where
  "failure_banner cmd rc =
     CHR 0x0A # ''!! Command failed (exit='' @ str_int rc @ ''): '' @ join '' '' cmd"

text \<open>\<^verbatim>\<open>subprocess.run\<close>: the child runs in the current tree and leaves a new one.\<close>

definition spawn :: "host \<Rightarrow> string list \<Rightarrow> (int \<times> string) prog" where
  "spawn h cmd = (\<lambda>s.
     case exec h cmd (fs s) of
       SpawnError e \<Rightarrow> (Inl (Uncaught e), s\<lparr>log := log s @ [Spawn cmd]\<rparr>)
     | Completed rc out fs' \<Rightarrow> (Inr (rc, out), s\<lparr>fs := fs', log := log s @ [Spawn cmd]\<rparr>))"

definition run :: "host \<Rightarrow> string list \<Rightarrow> bool \<Rightarrow> (int \<times> string) prog" where
  "run h cmd check =
     seq (print [PStr (CHR 0x0A # ''$ '' @ join '' '' cmd @ ''  (cwd='' @ root_str h @ '')'')])
       (bind (spawn h cmd) (\<lambda>(returncode, stdout).
          seq (print [PStr stdout])
            (if check \<and> returncode \<noteq> 0 then
               seq (print [PStr (failure_banner cmd returncode)]) (sys_exit returncode)
             else return (returncode, stdout))))"

definition safe_env_dump :: "host \<Rightarrow> unit prog" where
  "safe_env_dump h = print [PStr ''ENV KEYS:'', PStr (join '', '' (sort (map fst (environ h))))]"

definition excluded_names :: "string list" where
  "excluded_names = [''node_modules'', ''.git'', ''.cache'', ''dist'', ''build'', ''.next'']"

definition truncated :: string where
  "truncated = ''... (truncated)''"

text \<open>The loop of \<^verbatim>\<open>ls_tree\<close> over the sorted paths, with \<^verbatim>\<open>entries\<close> as accumulator.\<close>

fun ls_tree_loop :: "node \<Rightarrow> nat \<Rightarrow> path list \<Rightarrow> string list \<Rightarrow> string list" where
  "ls_tree_loop t max_entries [] entries = entries"
| "ls_tree_loop t max_entries (rel # ps) entries =
     (if rel \<noteq> [] \<and> hd rel \<in> set excluded_names then ls_tree_loop t max_entries ps entries
      else if is_dir (lookup t rel) then ls_tree_loop t max_entries ps entries
      else
        (let entries' = entries @ [path_str rel] in
         if length entries' \<ge> max_entries then entries' @ [truncated]
         else ls_tree_loop t max_entries ps entries'))"

definition ls_tree_entries :: "node \<Rightarrow> nat \<Rightarrow> string list" where
  "ls_tree_entries t max_entries = ls_tree_loop t max_entries (sort (rglob t)) []"

definition ls_tree :: "node \<Rightarrow> nat \<Rightarrow> unit prog" where
  "ls_tree t max_entries =
     (let entries = ls_tree_entries t max_entries in
      print [PStr (if entries \<noteq> [] then join [CHR 0x0A] entries else ''(no files found)'')])"

subsection \<open>\<^verbatim>\<open>main\<close>, section by section\<close>

text \<open>Lines 52 to 58: the environment report.\<close>

definition report_environment :: "host \<Rightarrow> unit prog" where
  "report_environment h = block
     [hr ''RENDER FRONTEND BUILD DIAGNOSTICS'',
      print [PStr ''PWD:'', PStr (getcwd h)],
      print [PStr ''ROOT:'', PPath []],
      print [PStr ''Python:'', PStr (map (\<lambda>c. if c = CHR 0x0A then CHR '' '' else c) (version h))],
      print [PStr ''Platform:'', PStr (platform h)],
      print [PStr ''CI:'', (case map_of (environ h) ''CI'' of None \<Rightarrow> PNone | Some v \<Rightarrow> PStr v)],
      safe_env_dump h]"

text \<open>Lines 60 to 71: where each tool is, and its version when it is there.\<close>

definition tools :: "string list" where
  "tools = [''node'', ''npm'', ''pnpm'', ''yarn'']"

definition print_which :: "host \<Rightarrow> string \<Rightarrow> unit prog" where
  "print_which h tool =
     print [PStr (tool @ '': ''), (case which h tool of None \<Rightarrow> PNone | Some loc \<Rightarrow> PStr loc)]"

definition version_check :: "host \<Rightarrow> string \<Rightarrow> unit prog" where
  "version_check h tool =
     (if which h tool \<noteq> None then bind (run h [tool, ''-v''] False) (\<lambda>_. return ())
      else return ())"

definition check_tooling :: "host \<Rightarrow> unit prog" where
  "check_tooling h = block
     ([hr ''CHECK TOOLING AVAILABILITY''] @ map (print_which h) tools @
      [version_check h ''node'', version_check h ''npm'',
       version_check h ''pnpm'', version_check h ''yarn''])"

text \<open>Lines 73 to 79. Line 77: \<^verbatim>\<open>[p.name for p in sorted(ROOT.iterdir())][:80]\<close>.\<close>

definition top_level_files :: "node \<Rightarrow> string list" where
  "top_level_files t = take 80 (sort (iterdir t))"

definition directory_sanity :: "unit prog" where
  "directory_sanity =
     seq (hr ''FRONTEND DIRECTORY CONTENTS (SANITY)'')
       (\<lambda>s. case fs s of
          None \<Rightarrow> seq (print [PStr ''ERROR: frontend directory not found.'']) (sys_exit 2) s
        | Some (File c) \<Rightarrow> raise NotADirectoryError s
        | Some (Dir es) \<Rightarrow>
            block
              [print [PStr ''Top-level files:'', PList (map PStr (top_level_files (Dir es)))],
               print [PStr (CHR 0x0A # ''File listing (trimmed):'')],
               ls_tree (Dir es) 250] s)"

text \<open>Lines 81 to 98: the manifest. \<^verbatim>\<open>read_text\<close> and \<^verbatim>\<open>json.loads\<close> are inside the
  \<^verbatim>\<open>try\<close>; the field accesses are after it.\<close>

fun read_text :: "node option \<Rightarrow> exn + string" where
  "read_text (Some (File (Inr c))) = Inr c"
| "read_text (Some (File (Inl e))) = Inl e"
| "read_text (Some (Dir _)) = Inl IsADirectoryError"
| "read_text None = Inl FileNotFoundError"

text \<open>\<^verbatim>\<open>pkg.get(key, default)\<close>: only a dict has the method.\<close>

fun py_get :: "pyval \<Rightarrow> string \<Rightarrow> pyval \<Rightarrow> pyval prog" where
  "py_get (PDict kvs) key dflt = return (case map_of kvs key of None \<Rightarrow> dflt | Some v \<Rightarrow> v)"
| "py_get _ key dflt = raise AttributeError"

definition parse_manifest :: "host \<Rightarrow> pyval prog" where
  "parse_manifest h = (\<lambda>s.
     case read_text (child (fs s) ''package.json'') of
       Inl e \<Rightarrow> seq (print [PStr ''Failed to parse package.json:'', PExn e]) (sys_exit 4) s
     | Inr text \<Rightarrow>
         seq (emit (JsonLoads text))
           (case json_loads h text of
              Inl msg \<Rightarrow>
                seq (print [PStr ''Failed to parse package.json:'', PExn (JSONDecodeError msg)])
                  (sys_exit 4)
            | Inr pkg \<Rightarrow> return pkg) s)"

definition manifest_fields :: "host \<Rightarrow> pyval \<Rightarrow> unit prog" where
  "manifest_fields h pkg =
     bind (py_get pkg ''name'' PNone) (\<lambda>name.
     seq (print [PStr ''name:'', name])
    (bind (py_get pkg ''type'' PNone) (\<lambda>type.
     seq (print [PStr ''type:'', type])
    (bind (py_get pkg ''engines'' PNone) (\<lambda>engines.
     seq (print [PStr ''engines:'', engines])
    (bind (py_get pkg ''scripts'' (PDict [])) (\<lambda>scripts.
     print [PStr ''scripts:'', PStr (json_dumps h scripts)])))))))"

definition package_json_summary :: "host \<Rightarrow> unit prog" where
  "package_json_summary h = (\<lambda>s.
     if \<not> exists (child (fs s) ''package.json'') then
       block
         [hr ''ERROR'',
          print [PStr ''package.json not found inside frontend/. Render Root Directory is likely wrong.''],
          sys_exit 3] s
     else
       seq (hr ''PACKAGE.JSON SUMMARY'') (bind (parse_manifest h) (manifest_fields h)) s)"

text \<open>Lines 100 to 125. Lines 111 to 122 choose the two commands from the three lockfile
  flags and from what \<^verbatim>\<open>shutil.which\<close> finds.\<close>

definition install_strategy ::
  "bool \<Rightarrow> bool \<Rightarrow> bool \<Rightarrow> string option \<Rightarrow> string option \<Rightarrow> string list \<times> string list" where
  "install_strategy has_pnpm has_npm has_yarn which_pnpm which_yarn =
     (if has_pnpm \<and> which_pnpm \<noteq> None then
        ([''pnpm'', ''install'', ''--frozen-lockfile''], [''pnpm'', ''run'', ''build''])
      else if has_yarn \<and> which_yarn \<noteq> None then
        ([''yarn'', ''install'', ''--frozen-lockfile''], [''yarn'', ''build''])
      else
        ((if has_npm then [''npm'', ''ci''] else [''npm'', ''install'']),
         [''npm'', ''run'', ''build'']))"

definition determine_install_strategy :: "host \<Rightarrow> (string list \<times> string list) prog" where
  "determine_install_strategy h = (\<lambda>s.
     let has_pnpm = exists (child (fs s) ''pnpm-lock.yaml'');
         has_npm = exists (child (fs s) ''package-lock.json'');
         has_yarn = exists (child (fs s) ''yarn.lock'');
         (installer, runner_build) =
           install_strategy has_pnpm has_npm has_yarn (which h ''pnpm'') (which h ''yarn'')
     in seq (block
          [hr ''DETERMINE INSTALL STRATEGY'',
           print [PStr ''Lockfiles:'',
             PDict [(''pnpm-lock.yaml'', PBool has_pnpm), (''package-lock.json'', PBool has_npm),
                    (''yarn.lock'', PBool has_yarn)]],
           print [PStr ''Installer command:'', PList (map PStr installer)],
           print [PStr ''Build command:'', PList (map PStr runner_build)]])
        (return (installer, runner_build)) s)"

text \<open>Lines 127 to 131: install, then build, both with \<^verbatim>\<open>check=True\<close>.\<close>

definition install_dependencies :: "host \<Rightarrow> string list \<Rightarrow> unit prog" where
  "install_dependencies h installer =
     seq (hr ''INSTALL DEPENDENCIES'') (bind (run h installer True) (\<lambda>_. return ()))"

definition run_build :: "host \<Rightarrow> string list \<Rightarrow> unit prog" where
  "run_build h runner_build =
     seq (hr ''RUN BUILD'') (bind (run h runner_build True) (\<lambda>_. return ()))"

text \<open>Lines 133 to 153: the publish directory, by name.\<close>

definition candidates :: "string list" where
  "candidates = [''dist'', ''build'', ''.next'']"

text \<open>The loop of lines 135 to 139: \<^verbatim>\<open>found\<close>.\<close>

definition found_candidates :: "node option \<Rightarrow> string list" where
  "found_candidates root =
     filter (\<lambda>c. exists (child root c) \<and> is_dir (child root c)) candidates"

definition locate_build_output :: "string prog" where
  "locate_build_output = (\<lambda>s.
     let found = found_candidates (fs s) in
     seq (hr ''LOCATE BUILD OUTPUT'')
    (seq (print [PStr ''Build output candidates found:'', PList (map PStr found)])
       (if ''dist'' \<in> set found then return ''dist''
        else if ''build'' \<in> set found then return ''build''
        else
          seq (if ''.next'' \<in> set found then
                 block
                   [print [PStr (CHR 0x0A # ''NOTE: Detected .next. This is likely Next.js.'')],
                    print [PStr ''If you want Static Site: ensure `next export` is used and output is `out/`.'']]
               else return ())
         (seq (print [PStr (CHR 0x0A # ''ERROR: No dist/ or build/ directory produced. Build succeeded but output folder missing.'')])
            (sys_exit 5)))) s)"

text \<open>Lines 154 to 162: the files of the publish directory. The bound is tested after
  every path, file or not.\<close>

fun out_files_loop :: "node \<Rightarrow> path list \<Rightarrow> string list \<Rightarrow> string list" where
  "out_files_loop d [] out_files = out_files"
| "out_files_loop d (rel # ps) out_files =
     (let out_files' = (if is_file (lookup d rel) then out_files @ [path_str rel] else out_files) in
      if length out_files' \<ge> 120 then out_files' @ [truncated]
      else out_files_loop d ps out_files')"

definition publish_out_files :: "node option \<Rightarrow> string list" where
  "publish_out_files d =
     (case d of None \<Rightarrow> [] | Some t \<Rightarrow> out_files_loop t (sort (rglob t)) [])"

definition publish_directory_listing :: "string \<Rightarrow> unit prog" where
  "publish_directory_listing publish_dir = (\<lambda>s.
     let out_files = publish_out_files (child (fs s) publish_dir) in
     block
       [print [PStr ''Publish directory:'', PPath [publish_dir]],
        hr ''PUBLISH DIRECTORY LISTING (TOP)'',
        print [PStr (if out_files \<noteq> [] then join [CHR 0x0A] out_files else ''(empty output dir)'')]] s)"

definition success :: "unit prog" where
  "success = block
     [hr ''SUCCESS'', print [PStr ''Frontend build diagnostics completed successfully.'']]"

text \<open>\<^verbatim>\<open>main\<close> up to and including the build (lines 52 to 131), and the whole of it.\<close>

definition through_build :: "host \<Rightarrow> unit prog" where
  "through_build h =
     seq (report_environment h)
    (seq (check_tooling h)
    (seq directory_sanity
    (seq (package_json_summary h)
    (bind (determine_install_strategy h) (\<lambda>(installer, runner_build).
     seq (install_dependencies h installer)
       (run_build h runner_build))))))"

definition main :: "host \<Rightarrow> unit prog" where
  "main h =
     seq (through_build h)
    (bind locate_build_output (\<lambda>publish_dir.
     seq (publish_directory_listing publish_dir)
       success))"

text \<open>A run starts with an empty log.\<close>

definition start :: "node option \<Rightarrow> state" where
  "start root = \<lparr>fs = root, log = []\<rparr>"

section \<open>Notions used in the statements\<close>

subsection \<open>What each section prints\<close>

text \<open>The three lines of \<^verbatim>\<open>hr(title)\<close>.\<close>

definition hr_events :: "string \<Rightarrow> event list" where
  "hr_events title =
     [Print [PStr (CHR 0x0A # replicate 72 (CHR ''=''))], Print [PStr title],
      Print [PStr (replicate 72 (CHR ''=''))]]"

text \<open>The first line of \<^verbatim>\<open>run\<close>: the command and the working directory.\<close>

definition dollar_line :: "host \<Rightarrow> string list \<Rightarrow> string" where
  "dollar_line h cmd = CHR 0x0A # ''$ '' @ join '' '' cmd @ ''  (cwd='' @ root_str h @ '')''"

text \<open>Lines 52 to 58.\<close>

definition environment_events :: "host \<Rightarrow> event list" where
  "environment_events h =
     hr_events ''RENDER FRONTEND BUILD DIAGNOSTICS'' @
     [Print [PStr ''PWD:'', PStr (getcwd h)],
      Print [PStr ''ROOT:'', PPath []],
      Print [PStr ''Python:'', PStr (map (\<lambda>c. if c = CHR 0x0A then CHR '' '' else c) (version h))],
      Print [PStr ''Platform:'', PStr (platform h)],
      Print [PStr ''CI:'', (case map_of (environ h) ''CI'' of None \<Rightarrow> PNone | Some v \<Rightarrow> PStr v)],
      Print [PStr ''ENV KEYS:'', PStr (join '', '' (sort (map fst (environ h))))]]"

text \<open>Lines 83 and 84, and the line of the handler at line 91.\<close>

definition manifest_missing_events :: "event list" where
  "manifest_missing_events =
     hr_events ''ERROR'' @
     [Print [PStr ''package.json not found inside frontend/. Render Root Directory is likely wrong.'']]"

definition parse_failure :: "exn \<Rightarrow> event" where
  "parse_failure e = Print [PStr ''Failed to parse package.json:'', PExn e]"

text \<open>Lines 100 to 125, for the three flags and the pair chosen.\<close>

definition strategy_events :: "bool \<Rightarrow> bool \<Rightarrow> bool \<Rightarrow> string list \<times> string list \<Rightarrow> event list" where
  "strategy_events has_pnpm has_npm has_yarn cmds =
     hr_events ''DETERMINE INSTALL STRATEGY'' @
     [Print [PStr ''Lockfiles:'',
        PDict [(''pnpm-lock.yaml'', PBool has_pnpm), (''package-lock.json'', PBool has_npm),
               (''yarn.lock'', PBool has_yarn)]],
      Print [PStr ''Installer command:'', PList (map PStr (fst cmds))],
      Print [PStr ''Build command:'', PList (map PStr (snd cmds))]]"

text \<open>Lines 133 and 140; lines 148 and 149; line 150.\<close>

definition locate_events :: "node option \<Rightarrow> event list" where
  "locate_events root =
     hr_events ''LOCATE BUILD OUTPUT'' @
     [Print [PStr ''Build output candidates found:'', PList (map PStr (found_candidates root))]]"

definition next_note :: "event list" where
  "next_note =
     [Print [PStr (CHR 0x0A # ''NOTE: Detected .next. This is likely Next.js.'')],
      Print [PStr ''If you want Static Site: ensure `next export` is used and output is `out/`.'']]"

definition no_output_error :: event where
  "no_output_error =
     Print [PStr (CHR 0x0A # ''ERROR: No dist/ or build/ directory produced. Build succeeded but output folder missing.'')]"

text \<open>Lines 153 to 162, for the publish directory and the list \<^verbatim>\<open>out_files\<close>; lines 164 and
  165.\<close>

definition listing_events :: "string \<Rightarrow> string list \<Rightarrow> event list" where
  "listing_events publish_dir out_files =
     [Print [PStr ''Publish directory:'', PPath [publish_dir]]] @
     hr_events ''PUBLISH DIRECTORY LISTING (TOP)'' @
     [Print [PStr (if out_files \<noteq> [] then join [CHR 0x0A] out_files else ''(empty output dir)'')]]"

definition success_events :: "event list" where
  "success_events =
     hr_events ''SUCCESS'' @ [Print [PStr ''Frontend build diagnostics completed successfully.'']]"

subsection \<open>Files of a directory, segments of a printed path\<close>

text \<open>What \<^verbatim>\<open>ls_tree\<close> has to list: the sorted paths that are not under an excluded name and
  are not directories. What the publish listing has to list: the sorted paths that are
  files.\<close>

definition listable :: "node \<Rightarrow> path list" where
  "listable t =
     filter (\<lambda>rel. \<not> (rel \<noteq> [] \<and> hd rel \<in> set excluded_names) \<and> \<not> is_dir (lookup t rel))
       (sort (rglob t))"

definition dir_files :: "node \<Rightarrow> path list" where
  "dir_files d = filter (\<lambda>rel. is_file (lookup d rel)) (sort (rglob d))"

text \<open>The first segment of a printed path: what stands before the first separator.\<close>

definition first_segment :: "string \<Rightarrow> string" where
  "first_segment e = takeWhile (\<lambda>c. c \<noteq> CHR ''/'') e"

fun is_dict :: "pyval \<Rightarrow> bool" where
  "is_dict (PDict kvs) = True"
| "is_dict _ = False"

subsection \<open>Parts of a run\<close>

text \<open>\<^verbatim>\<open>main\<close> up to line 79, where the manifest is looked for.\<close>

definition before_manifest :: "host \<Rightarrow> unit prog" where
  "before_manifest h = seq (report_environment h) (seq (check_tooling h) directory_sanity)"

text \<open>The four version checks of lines 64 to 71.\<close>

definition version_cmds :: "string list list" where
  "version_cmds = map (\<lambda>tool. [tool, ''-v'']) tools"

text \<open>An event of the part of a run before the manifest is read: a print, or the spawn of a
  version check.\<close>

fun quiet :: "event \<Rightarrow> bool" where
  "quiet (Print xs) = True"
| "quiet (Spawn cmd) = (cmd \<in> set version_cmds)"
| "quiet (JsonLoads body) = False"

text \<open>A program all of whose events satisfy \<open>P\<close>; a program all of whose exits through
  \<^verbatim>\<open>sys.exit\<close> satisfy \<open>Q\<close>.\<close>

definition emits_only :: "(event \<Rightarrow> bool) \<Rightarrow> 'a prog \<Rightarrow> bool" where
  "emits_only P m = (\<forall>s r s'. m s = (r, s') \<longrightarrow> (\<exists>evs. log s' = log s @ evs \<and> list_all P evs))"

definition exits_with :: "(int \<Rightarrow> state \<Rightarrow> bool) \<Rightarrow> 'a prog \<Rightarrow> bool" where
  "exits_with Q m = (\<forall>s c s'. m s = (Inl (SystemExit c), s') \<longrightarrow> Q c s')"



subsection \<open>Example trees and hosts\<close>

text \<open>A directory of \<open>k\<close> empty files named \<^verbatim>\<open>a\<close>, \<^verbatim>\<open>aa\<close>, \<^verbatim>\<open>aaa\<close>, and so on.\<close>

definition a_names :: "nat \<Rightarrow> string list" where
  "a_names k = map (\<lambda>i. replicate (Suc i) (CHR ''a'')) [0..<k]"

definition many_files :: "nat \<Rightarrow> node" where
  "many_files k = Dir (map (\<lambda>name. (name, File (Inr []))) (a_names k))"

text \<open>A project with dependencies installed and a build done, and with a directory
  \<^verbatim>\<open>index\<close> next to a file \<^verbatim>\<open>index.html\<close>.\<close>

definition demo_tree :: node where
  "demo_tree = Dir
     [(''package.json'', File (Inr ''{}'')),
      (''node_modules'', Dir [(''left-pad'', Dir [(''index.js'', File (Inr []))])]),
      (''src'', Dir [(''main.js'', File (Inr [])), (''app.css'', File (Inr []))]),
      (''dist'', Dir [(''index.html'', File (Inr []))]),
      (''index'', Dir [(''a.js'', File (Inr []))]),
      (''index.html'', File (Inr []))]"

text \<open>A project before the run: a lockfile of npm, a source file, and the manifest with the
  given text, if any.\<close>

definition demo_root :: "string option \<Rightarrow> node" where
  "demo_root manifest =
     Dir ((case manifest of None \<Rightarrow> [] | Some body \<Rightarrow> [(''package.json'', File (Inr body))]) @
          [(''package-lock.json'', File (Inr ''{}'')), (''src'', Dir [(''main.js'', File (Inr []))])])"

text \<open>A host with node and npm on the search path. \<^verbatim>\<open>npm ci\<close> exits with \<open>rc\<close> and, when that
  is 0, leaves \<^verbatim>\<open>node_modules\<close>; \<^verbatim>\<open>npm run build\<close> exits with 0 and leaves the entries \<open>out\<close>;
  any other command prints a version. \<open>demo_loads\<close> stands for \<^verbatim>\<open>json.loads\<close> on the three texts
  used here: an empty object, an empty list, and a text that is not JSON.\<close>

fun add_entries :: "node option \<Rightarrow> (string \<times> node) list \<Rightarrow> node option" where
  "add_entries (Some (Dir es)) new = Some (Dir (es @ new))"
| "add_entries t new = t"

definition demo_loads :: "string \<Rightarrow> string + pyval" where
  "demo_loads body =
     (if body = ''{}'' then Inr (PDict [])
      else if body = ''[]'' then Inr (PList [])
      else Inl ''Expecting value'')"

definition demo_exec ::
  "int \<Rightarrow> (string \<times> node) list \<Rightarrow> string list \<Rightarrow> node option \<Rightarrow> completed" where
  "demo_exec rc out cmd t =
     (if cmd = [''npm'', ''ci''] then
        (if rc = 0 then Completed 0 ''added 1 package'' (add_entries t [(''node_modules'', Dir [])])
         else Completed rc ''npm ERR!'' t)
      else if cmd = [''npm'', ''run'', ''build''] then Completed 0 ''build complete'' (add_entries t out)
      else Completed 0 ''10.2.4'' t)"

definition demo_host :: "int \<Rightarrow> (string \<times> node) list \<Rightarrow> host" where
  "demo_host rc out =
     \<lparr>getcwd = ''/opt/render/project/src/frontend'',
      root_str = ''/opt/render/project/src/frontend'',
      version = ''3.11.4 (main)'' @ [CHR 0x0A] @ ''[GCC 12.2.0]'',
      platform = ''Linux-6.1-x86_64'',
      environ = [(''PATH'', ''/usr/bin''), (''CI'', ''true'')],
      which = (\<lambda>tool. if tool = ''node'' \<or> tool = ''npm'' then Some (''/usr/bin/'' @ tool) else None),
      exec = demo_exec rc out,
      json_loads = demo_loads,
      json_dumps = (\<lambda>v. ''{}'')\<rparr>"

text \<open>The tree after install and build on that host, from \<open>demo_root\<close> with an empty object
  as manifest.\<close>

definition demo_built :: "(string \<times> node) list \<Rightarrow> node" where
  "demo_built out =
     Dir ([(''package.json'', File (Inr ''{}'')), (''package-lock.json'', File (Inr ''{}'')),
           (''src'', Dir [(''main.js'', File (Inr []))]), (''node_modules'', Dir [])] @ out)"

text \<open>The state of the run on that host at line 81, and at line 133.\<close>

definition demo_before_manifest :: "int \<Rightarrow> string option \<Rightarrow> state" where
  "demo_before_manifest rc manifest =
     snd (before_manifest (demo_host rc []) (start (Some (demo_root manifest))))"

definition demo_after_build :: "(string \<times> node) list \<Rightarrow> state" where
  "demo_after_build out =
     snd (through_build (demo_host 0 out) (start (Some (demo_root (Some ''{}'')))))"

text \<open>A host with every tool on the search path, and a project with all three lockfiles.\<close>

definition all_tools_host :: host where
  "all_tools_host = (demo_host 0 [])\<lparr>which := (\<lambda>tool. Some (''/usr/bin/'' @ tool))\<rparr>"

definition lockfiles_root :: node where
  "lockfiles_root = Dir
     [(''package.json'', File (Inr ''{}'')), (''pnpm-lock.yaml'', File (Inr [])), (''yarn.lock'', File (Inr [])),
      (''package-lock.json'', File (Inr ''{}''))]"




definition empty_dist_out :: "(string \<times> node) list" where
  "empty_dist_out = [(''dist'', Dir [(''assets'', Dir [])])]"

section \<open>Properties\<close>

subsection \<open>Sequencing, \<^verbatim>\<open>run\<close>, and the two listing loops\<close>

lemma return_apply: "return a s = (Inr a, s)"
  by (simp add: return_def)

lemma sys_exit_apply: "sys_exit c s = (Inl (SystemExit c), s)"
  by (simp add: sys_exit_def)

lemma raise_apply: "raise e s = (Inl (Uncaught e), s)"
  by (simp add: raise_def)

lemma emit_apply: "emit e s = (Inr (), s\<lparr>log := log s @ [e]\<rparr>)"
  by (simp add: emit_def)

lemma print_apply: "print xs s = (Inr (), s\<lparr>log := log s @ [Print xs]\<rparr>)"
  by (simp add: print_def emit_def)

lemma bind_Inr: "m s = (Inr a, s1) \<Longrightarrow> bind m f s = f a s1"
  by (simp add: bind_def)

lemma bind_Inl: "m s = (Inl e, s1) \<Longrightarrow> bind m f s = (Inl e, s1)"
  by (simp add: bind_def)

lemma seq_Inr: "m s = (Inr (), s1) \<Longrightarrow> seq m n s = n s1"
  by (simp add: seq_def bind_def)

lemma seq_Inl: "m s = (Inl e, s1) \<Longrightarrow> seq m n s = (Inl e, s1)"
  by (simp add: seq_def bind_def)

lemma bind_return: "bind (return a) f = f a"
  by (rule ext) (simp add: bind_def return_def)

lemma prog_bind_assoc: "bind (bind m f) g = bind m (\<lambda>a. bind (f a) g)"
  by (rule ext) (simp add: bind_def split: prod.splits sum.splits)

lemma seq_assoc: "seq (seq m n) k = seq m (seq n k)"
  by (simp add: seq_def prog_bind_assoc)

lemma seq_bind_assoc: "bind (seq m n) f = seq m (bind n f)"
  by (simp add: seq_def prog_bind_assoc)

lemma seq_print: "seq (print xs) k s = k (s\<lparr>log := log s @ [Print xs]\<rparr>)"
  by (simp add: seq_Inr [OF print_apply])

lemma seq_emit: "seq (emit e) k s = k (s\<lparr>log := log s @ [e]\<rparr>)"
  by (simp add: seq_Inr [OF emit_apply])

lemma hr_apply: "hr title s = (Inr (), s\<lparr>log := log s @ hr_events title\<rparr>)"
  by (simp add: hr_def hr_events_def seq_print return_apply)

lemma seq_hr: "seq (hr title) k s = k (s\<lparr>log := log s @ hr_events title\<rparr>)"
  by (simp add: seq_Inr [OF hr_apply])

lemma bind_InlE:
  assumes "bind m f s = (Inl e, s')"
  obtains "m s = (Inl e, s')" | a s1 where "m s = (Inr a, s1)" "f a s1 = (Inl e, s')"
  using assms by (auto simp: bind_def split: prod.splits sum.splits)

lemma seq_InlE:
  assumes "seq m n s = (Inl e, s')"
  obtains "m s = (Inl e, s')" | s1 where "m s = (Inr (), s1)" "n s1 = (Inl e, s')"
  using assms unfolding seq_def by (auto elim: bind_InlE)

lemma spawn_Completed:
  "exec h cmd (fs s) = Completed rc out fs' \<Longrightarrow>
   spawn h cmd s = (Inr (rc, out), s\<lparr>fs := fs', log := log s @ [Spawn cmd]\<rparr>)"
  by (simp add: spawn_def)

lemma run_apply:
  "run h cmd check s =
     (case exec h cmd (fs s) of
        SpawnError e \<Rightarrow>
          (Inl (Uncaught e), s\<lparr>log := log s @ [Print [PStr (dollar_line h cmd)], Spawn cmd]\<rparr>)
      | Completed rc out fs' \<Rightarrow>
          if check \<and> rc \<noteq> 0 then
            (Inl (SystemExit rc),
             s\<lparr>fs := fs', log := log s @ [Print [PStr (dollar_line h cmd)], Spawn cmd,
                  Print [PStr out], Print [PStr (failure_banner cmd rc)]]\<rparr>)
          else
            (Inr (rc, out),
             s\<lparr>fs := fs', log := log s @ [Print [PStr (dollar_line h cmd)], Spawn cmd,
                  Print [PStr out]]\<rparr>))"
  by (auto simp: run_def seq_print spawn_def bind_def sys_exit_apply return_apply dollar_line_def
      split: completed.splits)

lemma run_Completed:
  assumes "exec h cmd (fs s) = Completed rc out fs'"
  shows "run h cmd check s =
    (if check \<and> rc \<noteq> 0 then
       (Inl (SystemExit rc),
        s\<lparr>fs := fs', log := log s @ [Print [PStr (dollar_line h cmd)], Spawn cmd, Print [PStr out],
                                   Print [PStr (failure_banner cmd rc)]]\<rparr>)
     else
       (Inr (rc, out),
        s\<lparr>fs := fs', log := log s @ [Print [PStr (dollar_line h cmd)], Spawn cmd, Print [PStr out]]\<rparr>))"
  using assms by (simp add: run_apply)


lemma seq_fst_Inr: "fst (m s) = Inr () \<Longrightarrow> seq m n s = n (snd (m s))"
  by (cases "m s") (simp add: seq_def bind_def)

lemma bind_fst_Inr: "fst (m s) = Inr a \<Longrightarrow> bind m f s = f a (snd (m s))"
  by (cases "m s") (simp add: bind_def)

lemma seq_return: "seq (return ()) n = n"
  by (simp add: seq_def bind_return)

lemma seq_sys_exit: "seq (sys_exit c) n s = (Inl (SystemExit c), s)"
  by (simp add: seq_Inl [OF sys_exit_apply])

lemma ls_tree_loop_exact:
  assumes "0 < n" "length acc < n"
  shows "ls_tree_loop t n ps acc =
     (let L = acc @ map path_str (filter (\<lambda>rel. \<not> (rel \<noteq> [] \<and> hd rel \<in> set excluded_names) \<and> \<not> is_dir (lookup t rel)) ps)
      in if length L < n then L else take n L @ [truncated])"
  using assms
proof (induction ps arbitrary: acc)
  case Nil
  then show ?case by simp
next
  case (Cons rel ps)
  then show ?case by (auto simp: Let_def take_Cons')
qed

lemma out_files_loop_exact:
  assumes "length acc < 120"
  shows "out_files_loop d ps acc =
     (let L = acc @ map path_str (filter (\<lambda>rel. is_file (lookup d rel)) ps)
      in if length L < 120 then L else take 120 L @ [truncated])"
  using assms
proof (induction ps arbitrary: acc)
  case Nil
  then show ?case by simp
next
  case (Cons rel ps)
  then show ?case by (auto simp: Let_def take_Cons')
qed

subsection \<open>The recursive listing\<close>

lemma ls_tree_loop_shape:
  "\<exists>k m. ls_tree_loop t n ps acc =
      acc @ map path_str (take k (filter (\<lambda>rel. \<not> (rel \<noteq> [] \<and> hd rel \<in> set excluded_names) \<and> \<not> is_dir (lookup t rel)) ps)) @ m
    \<and> (m = [] \<or> m = [truncated])"
proof (induction ps arbitrary: acc)
  case Nil
  show ?case by simp
next
  case (Cons rel ps)
  let ?P = "\<lambda>rel. \<not> (rel \<noteq> [] \<and> hd rel \<in> set excluded_names) \<and> \<not> is_dir (lookup t rel)"
  show ?case
  proof (cases "?P rel")
    case False
    from Cons.IH [of acc] False show ?thesis by auto
  next
    case True
    show ?thesis
    proof (cases "n \<le> length (acc @ [path_str rel])")
      case full: True
      have "ls_tree_loop t n (rel # ps) acc = acc @ map path_str (take 1 (filter ?P (rel # ps))) @ [truncated]"
        using True full by (auto simp: Let_def)
      then show ?thesis by blast
    next
      case room: False
      from Cons.IH [of "acc @ [path_str rel]"] obtain k m where
        km: "ls_tree_loop t n ps (acc @ [path_str rel]) =
               (acc @ [path_str rel]) @ map path_str (take k (filter ?P ps)) @ m"
            "m = [] \<or> m = [truncated]"
        by blast
      have "ls_tree_loop t n (rel # ps) acc = acc @ map path_str (take (Suc k) (filter ?P (rel # ps))) @ m"
        using True room km(1) by (auto simp: Let_def)
      with km(2) show ?thesis by blast
    qed
  qed
qed

lemma rglob_nonempty_segments:
  "wf_node t \<Longrightarrow> p \<in> set (rglob t) \<Longrightarrow> p \<noteq> [] \<and> (\<forall>seg\<in>set p. CHR ''/'' \<notin> set seg)"
  "wf_entries es \<Longrightarrow> p \<in> set (rglob_entries es) \<Longrightarrow> p \<noteq> [] \<and> (\<forall>seg\<in>set p. CHR ''/'' \<notin> set seg)"
  by (induction t and es arbitrary: p and p rule: rglob_rglob_entries.induct) auto

lemma first_segment_path_str:
  assumes "p \<noteq> []" "CHR ''/'' \<notin> set (hd p)"
  shows "first_segment (path_str p) = hd p"
proof (cases p)
  case Nil
  with assms show ?thesis by simp
next
  case (Cons a rest)
  with assms have a: "CHR ''/'' \<notin> set a" by simp
  show ?thesis
  proof (cases rest)
    case Nil
    with Cons a show ?thesis by (auto simp: first_segment_def path_str_def)
  next
    case (Cons b rest')
    with \<open>p = a # rest\<close> a show ?thesis
      by (auto simp: first_segment_def path_str_def takeWhile_tail)
  qed
qed

lemma first_segment_truncated: "first_segment truncated \<notin> set excluded_names"
  by (simp add: first_segment_def truncated_def excluded_names_def)


lemma sorted_listable: "sorted (listable t)"
  unfolding listable_def by (rule sorted_wrt_filter) simp

lemma ls_tree_entries_shape:
  "\<exists>k m. ls_tree_entries t n = map path_str (take k (listable t)) @ m \<and> (m = [] \<or> m = [truncated])"
  using ls_tree_loop_shape [of t n "sort (rglob t)" "[]"]
  by (simp add: ls_tree_entries_def listable_def)

text \<open>
  C6, amended. For every well-formed directory and every bound, no entry of the recursive
  listing has an excluded name as its first segment, and the listing is the \<^verbatim>\<open>str\<close> of a run
  of paths found by \<^verbatim>\<open>rglob\<close> (none under an excluded name, none a directory), followed by the
  truncation marker or by nothing. The run is sorted in the order of \<^verbatim>\<open>Path\<close> objects: segment
  by segment, each segment character by character. That is not the lexicographic order of
  the printed paths where a directory name is a prefix of the name of a sibling.
\<close>

theorem ls_tree_excludes_and_sorted:
  assumes "wf_node t"
  shows "(\<forall>e\<in>set (ls_tree_entries t n). first_segment e \<notin> set excluded_names) \<and>
         (\<exists>ps m. ls_tree_entries t n = map path_str ps @ m \<and> (m = [] \<or> m = [truncated]) \<and>
            sorted ps \<and> set ps \<subseteq> set (rglob t) \<and>
            (\<forall>p\<in>set ps. p \<noteq> [] \<and> hd p \<notin> set excluded_names \<and> \<not> is_dir (lookup t p)))"
proof -
  obtain k m where km: "ls_tree_entries t n = map path_str (take k (listable t)) @ m"
    "m = [] \<or> m = [truncated]"
    using ls_tree_entries_shape by blast
  let ?ps = "take k (listable t)"
  have sub: "set ?ps \<subseteq> set (listable t)" by (rule set_take_subset)
  have in_rglob: "set ?ps \<subseteq> set (rglob t)"
    using sub by (auto simp: listable_def)
  have props: "p \<noteq> [] \<and> hd p \<notin> set excluded_names \<and> \<not> is_dir (lookup t p) \<and> CHR ''/'' \<notin> set (hd p)"
    if "p \<in> set ?ps" for p
  proof -
    from that sub have l: "p \<in> set (listable t)" by blast
    then have r: "p \<in> set (rglob t)" by (simp add: listable_def)
    from rglob_nonempty_segments(1) [OF assms r] have ne: "p \<noteq> []"
      and seg: "CHR ''/'' \<notin> set (hd p)" by auto
    from l ne have "hd p \<notin> set excluded_names" "\<not> is_dir (lookup t p)"
      by (auto simp: listable_def)
    with ne seg show ?thesis by simp
  qed
  have sorted: "sorted ?ps" by (simp add: sorted_listable sorted_wrt_take)
  have first: "first_segment e \<notin> set excluded_names" if "e \<in> set (ls_tree_entries t n)" for e
  proof -
    from that km have "e \<in> path_str ` set ?ps \<or> e = truncated" by auto
    then show ?thesis
    proof
      assume "e \<in> path_str ` set ?ps"
      then obtain p where p: "p \<in> set ?ps" "e = path_str p" by blast
      with props [OF p(1)] show ?thesis by (simp add: first_segment_path_str)
    next
      assume "e = truncated"
      then show ?thesis by (simp add: first_segment_truncated)
    qed
  qed
  from km sorted in_rglob props first show ?thesis by blast
qed

subsection \<open>Events up to the manifest\<close>

lemma emits_onlyD:
  "emits_only P m \<Longrightarrow> m s = (r, s') \<Longrightarrow> \<exists>evs. log s' = log s @ evs \<and> list_all P evs"
  by (simp add: emits_only_def)

lemma emits_only_return: "emits_only P (return a)"
  by (simp add: emits_only_def return_def)

lemma emits_only_sys_exit: "emits_only P (sys_exit c)"
  by (simp add: emits_only_def sys_exit_def)

lemma emits_only_raise: "emits_only P (raise e)"
  by (simp add: emits_only_def raise_def)

lemma emits_only_emit: "P e \<Longrightarrow> emits_only P (emit e)"
  by (auto simp: emits_only_def emit_def)

lemma emits_only_print: "P (Print xs) \<Longrightarrow> emits_only P (print xs)"
  by (simp add: print_def emits_only_emit)

lemma emits_only_bind:
  assumes "emits_only P m" "\<And>a. emits_only P (f a)"
  shows "emits_only P (bind m f)"
  unfolding emits_only_def
proof (intro allI impI)
  fix s r s'
  assume b: "bind m f s = (r, s')"
  obtain r1 s1 where m: "m s = (r1, s1)" by (cases "m s")
  from emits_onlyD [OF assms(1) m] obtain e1 where e1: "log s1 = log s @ e1" "list_all P e1"
    by blast
  show "\<exists>evs. log s' = log s @ evs \<and> list_all P evs"
  proof (cases r1)
    case (Inl e)
    with b m have "s' = s1" by (simp add: bind_def)
    with e1 show ?thesis by blast
  next
    case (Inr a)
    with b m have "f a s1 = (r, s')" by (simp add: bind_def)
    from emits_onlyD [OF assms(2) this] obtain e2 where "log s' = log s1 @ e2" "list_all P e2"
      by blast
    with e1 have "log s' = log s @ (e1 @ e2) \<and> list_all P (e1 @ e2)" by simp
    then show ?thesis by blast
  qed
qed

lemma emits_only_seq: "emits_only P m \<Longrightarrow> emits_only P n \<Longrightarrow> emits_only P (seq m n)"
  by (simp add: seq_def emits_only_bind)

lemma emits_only_block: "(\<And>p. p \<in> set ps \<Longrightarrow> emits_only P p) \<Longrightarrow> emits_only P (block ps)"
  by (induction ps) (simp_all add: emits_only_return emits_only_seq)

lemma emits_only_hr: "(\<And>xs. P (Print xs)) \<Longrightarrow> emits_only P (hr title)"
  by (simp add: hr_def emits_only_seq emits_only_print emits_only_return)

lemma emits_only_spawn: "P (Spawn cmd) \<Longrightarrow> emits_only P (spawn h cmd)"
  by (auto simp: emits_only_def spawn_def split: completed.splits)

lemma emits_only_run:
  "(\<And>xs. P (Print xs)) \<Longrightarrow> P (Spawn cmd) \<Longrightarrow> emits_only P (run h cmd check)"
  unfolding run_def
  by (intro emits_only_seq emits_only_bind emits_only_print emits_only_spawn)
     (auto simp: emits_only_seq emits_only_print emits_only_sys_exit emits_only_return)

lemma emits_only_state: "(\<And>s. emits_only P (\<lambda>s'. f s s')) \<Longrightarrow> emits_only P (\<lambda>s. f s s)"
  by (auto simp: emits_only_def)

lemma emits_only_report_environment: "emits_only quiet (report_environment h)"
  unfolding report_environment_def safe_env_dump_def
  by (rule emits_only_block) (auto simp: emits_only_hr emits_only_print)

lemma emits_only_version_check:
  "tool \<in> set tools \<Longrightarrow> emits_only quiet (version_check h tool)"
  unfolding version_check_def
  by (auto intro!: emits_only_bind emits_only_run emits_only_return simp: version_cmds_def)

lemma emits_only_check_tooling: "emits_only quiet (check_tooling h)"
  unfolding check_tooling_def
  by (rule emits_only_block)
     (auto simp: emits_only_hr print_which_def emits_only_print emits_only_version_check tools_def)

lemma emits_only_ls_tree: "emits_only quiet (ls_tree t n)"
  by (simp add: ls_tree_def Let_def emits_only_print)

lemma emits_only_pointwise:
  assumes "\<And>s. \<exists>m. emits_only P m \<and> f s = m s"
  shows "emits_only P f"
  unfolding emits_only_def
proof (intro allI impI)
  fix s r s'
  assume f: "f s = (r, s')"
  from assms [of s] obtain m where m: "emits_only P m" "f s = m s" by blast
  with f have "m s = (r, s')" by simp
  from emits_onlyD [OF m(1) this] show "\<exists>evs. log s' = log s @ evs \<and> list_all P evs" .
qed

lemma emits_only_directory_sanity: "emits_only quiet directory_sanity"
  unfolding directory_sanity_def
proof (rule emits_only_seq)
  show "emits_only quiet (hr ''FRONTEND DIRECTORY CONTENTS (SANITY)'')"
    by (simp add: emits_only_hr)
next
  show "emits_only quiet
     (\<lambda>s. case fs s of
          None \<Rightarrow> seq (print [PStr ''ERROR: frontend directory not found.'']) (sys_exit 2) s
        | Some (File c) \<Rightarrow> raise NotADirectoryError s
        | Some (Dir es) \<Rightarrow>
            block
              [print [PStr ''Top-level files:'', PList (map PStr (top_level_files (Dir es)))],
               print [PStr (CHR 0x0A # ''File listing (trimmed):'')],
               ls_tree (Dir es) 250] s)"
  proof (rule emits_only_pointwise)
    fix s
    show "\<exists>m. emits_only quiet m \<and>
      (case fs s of
          None \<Rightarrow> seq (print [PStr ''ERROR: frontend directory not found.'']) (sys_exit 2) s
        | Some (File c) \<Rightarrow> raise NotADirectoryError s
        | Some (Dir es) \<Rightarrow>
            block
              [print [PStr ''Top-level files:'', PList (map PStr (top_level_files (Dir es)))],
               print [PStr (CHR 0x0A # ''File listing (trimmed):'')],
               ls_tree (Dir es) 250] s) = m s"
    proof (cases "fs s")
      case None
      have "emits_only quiet (seq (print [PStr ''ERROR: frontend directory not found.'']) (sys_exit 2))"
        by (simp add: emits_only_seq emits_only_print emits_only_sys_exit)
      with None show ?thesis by auto
    next
      case (Some t)
      show ?thesis
      proof (cases t)
        case (File c)
        have "emits_only quiet (raise NotADirectoryError :: unit prog)" by (rule emits_only_raise)
        with Some File show ?thesis by auto
      next
        case (Dir es)
        have "emits_only quiet (block
              [print [PStr ''Top-level files:'', PList (map PStr (top_level_files (Dir es)))],
               print [PStr (CHR 0x0A # ''File listing (trimmed):'')],
               ls_tree (Dir es) 250])"
          by (rule emits_only_block) (auto simp: emits_only_print emits_only_ls_tree)
        with Some Dir show ?thesis by auto
      qed
    qed
  qed
qed

lemma emits_only_before_manifest: "emits_only quiet (before_manifest h)"
  unfolding before_manifest_def
  by (intro emits_only_seq emits_only_report_environment emits_only_check_tooling
      emits_only_directory_sanity)

lemma before_manifest_log:
  assumes "before_manifest h (start root) = (r, s1)"
  shows "list_all quiet (log s1)"
  using emits_onlyD [OF emits_only_before_manifest assms] by (simp add: start_def)

subsection \<open>Locating and listing the build output\<close>

lemma seq_bind_left: "seq (bind m f) n = bind m (\<lambda>a. seq (f a) n)"
  by (simp add: seq_def prog_bind_assoc)

lemma case_prod_seq: "seq (case p of (a, b) \<Rightarrow> f a b) n = (case p of (a, b) \<Rightarrow> seq (f a b) n)"
  by (cases p) simp

lemma main_unfold:
  "main h =
     seq (before_manifest h)
    (seq (package_json_summary h)
    (bind (determine_install_strategy h) (\<lambda>(installer, runner_build).
     seq (install_dependencies h installer)
    (seq (run_build h runner_build)
    (bind locate_build_output (\<lambda>publish_dir.
     seq (publish_directory_listing publish_dir) success))))))"
  by (simp add: main_def through_build_def before_manifest_def seq_assoc seq_bind_left
      case_prod_seq cong: prod.case_cong)

lemma main_after_through_build:
  "through_build h s = (Inr (), s1) \<Longrightarrow>
   main h s = bind locate_build_output (\<lambda>publish_dir.
     seq (publish_directory_listing publish_dir) success) s1"
  by (simp add: main_def seq_Inr)

lemma is_dir_exists: "(exists x \<and> is_dir x) = is_dir x"
  by (cases x rule: is_dir.cases) simp_all

lemma dist_in_found: "''dist'' \<in> set (found_candidates root) = is_dir (child root ''dist'')"
  by (simp add: found_candidates_def candidates_def is_dir_exists)

lemma build_in_found: "''build'' \<in> set (found_candidates root) = is_dir (child root ''build'')"
  by (simp add: found_candidates_def candidates_def is_dir_exists)

lemma next_in_found: "''.next'' \<in> set (found_candidates root) = is_dir (child root ''.next'')"
  by (simp add: found_candidates_def candidates_def is_dir_exists)

lemma locate_build_output_apply:
  "locate_build_output s =
     (if is_dir (child (fs s) ''dist'') then
        (Inr ''dist'', s\<lparr>log := log s @ locate_events (fs s)\<rparr>)
      else if is_dir (child (fs s) ''build'') then
        (Inr ''build'', s\<lparr>log := log s @ locate_events (fs s)\<rparr>)
      else
        (Inl (SystemExit 5),
         s\<lparr>log := log s @ locate_events (fs s) @
             (if is_dir (child (fs s) ''.next'') then next_note else []) @ [no_output_error]\<rparr>))"
  by (simp add: locate_build_output_def Let_def seq_hr seq_print dist_in_found build_in_found
      next_in_found seq_assoc seq_return return_apply sys_exit_apply locate_events_def next_note_def no_output_error_def)

lemma publish_directory_listing_apply:
  "publish_directory_listing publish_dir s =
     (Inr (), s\<lparr>log := log s @
        listing_events publish_dir (publish_out_files (child (fs s) publish_dir))\<rparr>)"
  by (simp add: publish_directory_listing_def Let_def seq_hr seq_print return_apply
      listing_events_def)

lemma success_apply: "success s = (Inr (), s\<lparr>log := log s @ success_events\<rparr>)"
  by (simp add: success_def seq_hr seq_print return_apply success_events_def)

lemma publish_out_files_small:
  "length (dir_files d) < 120 \<Longrightarrow> publish_out_files (Some d) = map path_str (dir_files d)"
  by (simp add: publish_out_files_def out_files_loop_exact dir_files_def Let_def)

lemma main_published:
  assumes "through_build h s = (Inr (), s1)"
    and "fst (locate_build_output s1) = Inr publish_dir"
  shows "main h s =
    (Inr (), s1\<lparr>log := log s1 @ locate_events (fs s1) @
       listing_events publish_dir (publish_out_files (child (fs s1) publish_dir)) @
       success_events\<rparr>)"
proof -
  from assms(2) have "locate_build_output s1 = (Inr publish_dir, s1\<lparr>log := log s1 @ locate_events (fs s1)\<rparr>)"
    by (simp add: locate_build_output_apply split: if_splits)
  then show ?thesis
    by (simp add: main_after_through_build [OF assms(1)] bind_Inr
        seq_Inr [OF publish_directory_listing_apply] success_apply)
qed

subsection \<open>The manifest and the install strategy\<close>

lemma py_get_not_dict: "\<not> is_dict pkg \<Longrightarrow> py_get pkg key dflt = raise AttributeError"
  by (cases pkg) simp_all

lemma package_json_summary_missing:
  "\<not> exists (child (fs s) ''package.json'') \<Longrightarrow>
   package_json_summary h s = (Inl (SystemExit 3), s\<lparr>log := log s @ manifest_missing_events\<rparr>)"
  by (simp add: package_json_summary_def seq_hr seq_print seq_sys_exit manifest_missing_events_def)

lemma package_json_summary_malformed:
  "child (fs s) ''package.json'' = Some (File (Inr text)) \<Longrightarrow> json_loads h text = Inl msg \<Longrightarrow>
   package_json_summary h s =
     (Inl (SystemExit 4),
      s\<lparr>log := log s @ hr_events ''PACKAGE.JSON SUMMARY'' @
          [JsonLoads text, parse_failure (JSONDecodeError msg)]\<rparr>)"
  by (simp add: package_json_summary_def seq_hr parse_manifest_def bind_def seq_emit seq_print
      sys_exit_apply parse_failure_def)

lemma package_json_summary_directory:
  "child (fs s) ''package.json'' = Some (Dir es) \<Longrightarrow>
   package_json_summary h s =
     (Inl (SystemExit 4),
      s\<lparr>log := log s @ hr_events ''PACKAGE.JSON SUMMARY'' @ [parse_failure IsADirectoryError]\<rparr>)"
  by (simp add: package_json_summary_def seq_hr parse_manifest_def bind_def seq_emit seq_print
      sys_exit_apply parse_failure_def)

lemma package_json_summary_unreadable:
  "child (fs s) ''package.json'' = Some (File (Inl e)) \<Longrightarrow>
   package_json_summary h s =
     (Inl (SystemExit 4),
      s\<lparr>log := log s @ hr_events ''PACKAGE.JSON SUMMARY'' @ [parse_failure e]\<rparr>)"
  by (simp add: package_json_summary_def seq_hr parse_manifest_def bind_def seq_emit seq_print
      sys_exit_apply parse_failure_def)

lemma package_json_summary_not_dict:
  "child (fs s) ''package.json'' = Some (File (Inr text)) \<Longrightarrow> json_loads h text = Inr pkg \<Longrightarrow>
   \<not> is_dict pkg \<Longrightarrow>
   package_json_summary h s =
     (Inl (Uncaught AttributeError),
      s\<lparr>log := log s @ hr_events ''PACKAGE.JSON SUMMARY'' @ [JsonLoads text]\<rparr>)"
  by (simp add: package_json_summary_def seq_hr parse_manifest_def bind_def seq_emit
      return_apply manifest_fields_def py_get_not_dict raise_apply)

lemma package_json_summary_dict:
  "child (fs s) ''package.json'' = Some (File (Inr text)) \<Longrightarrow> json_loads h text = Inr (PDict kvs) \<Longrightarrow>
   package_json_summary h s =
     (Inr (),
      s\<lparr>log := log s @ hr_events ''PACKAGE.JSON SUMMARY'' @
          [JsonLoads text,
           Print [PStr ''name:'', (case map_of kvs ''name'' of None \<Rightarrow> PNone | Some v \<Rightarrow> v)],
           Print [PStr ''type:'', (case map_of kvs ''type'' of None \<Rightarrow> PNone | Some v \<Rightarrow> v)],
           Print [PStr ''engines:'', (case map_of kvs ''engines'' of None \<Rightarrow> PNone | Some v \<Rightarrow> v)],
           Print [PStr ''scripts:'',
             PStr (json_dumps h (case map_of kvs ''scripts'' of None \<Rightarrow> PDict [] | Some v \<Rightarrow> v))]]\<rparr>)"
  by (simp add: package_json_summary_def seq_hr parse_manifest_def bind_def seq_emit
      return_apply manifest_fields_def seq_print print_apply)

lemma determine_install_strategy_apply:
  "determine_install_strategy h s =
     (let has_pnpm = exists (child (fs s) ''pnpm-lock.yaml'');
          has_npm = exists (child (fs s) ''package-lock.json'');
          has_yarn = exists (child (fs s) ''yarn.lock'');
          cmds = install_strategy has_pnpm has_npm has_yarn (which h ''pnpm'') (which h ''yarn'')
      in (Inr cmds, s\<lparr>log := log s @ strategy_events has_pnpm has_npm has_yarn cmds\<rparr>))"
  by (simp add: determine_install_strategy_def Let_def seq_hr seq_print return_apply
      seq_assoc seq_return strategy_events_def split: prod.splits)

lemma install_dependencies_Completed:
  assumes "exec h cmd (fs s) = Completed rc out fs'"
  shows "install_dependencies h cmd s =
    (if rc \<noteq> 0 then
       (Inl (SystemExit rc),
        s\<lparr>fs := fs', log := log s @ hr_events ''INSTALL DEPENDENCIES'' @
             [Print [PStr (dollar_line h cmd)], Spawn cmd, Print [PStr out],
              Print [PStr (failure_banner cmd rc)]]\<rparr>)
     else
       (Inr (),
        s\<lparr>fs := fs', log := log s @ hr_events ''INSTALL DEPENDENCIES'' @
             [Print [PStr (dollar_line h cmd)], Spawn cmd, Print [PStr out]]\<rparr>))"
  using assms
  by (simp add: install_dependencies_def seq_hr bind_def run_Completed return_apply)

lemma run_build_Completed:
  assumes "exec h cmd (fs s) = Completed rc out fs'"
  shows "run_build h cmd s =
    (if rc \<noteq> 0 then
       (Inl (SystemExit rc),
        s\<lparr>fs := fs', log := log s @ hr_events ''RUN BUILD'' @
             [Print [PStr (dollar_line h cmd)], Spawn cmd, Print [PStr out],
              Print [PStr (failure_banner cmd rc)]]\<rparr>)
     else
       (Inr (),
        s\<lparr>fs := fs', log := log s @ hr_events ''RUN BUILD'' @
             [Print [PStr (dollar_line h cmd)], Spawn cmd, Print [PStr out]]\<rparr>))"
  using assms
  by (simp add: run_build_def seq_hr bind_def run_Completed return_apply)

lemma main_after_before_manifest:
  "before_manifest h s = (Inr (), s1) \<Longrightarrow>
   main h s =
     seq (package_json_summary h)
    (bind (determine_install_strategy h) (\<lambda>(installer, runner_build).
     seq (install_dependencies h installer)
    (seq (run_build h runner_build)
    (bind locate_build_output (\<lambda>publish_dir.
     seq (publish_directory_listing publish_dir) success))))) s1"
  by (simp add: main_unfold seq_Inr)

subsection \<open>Exits through \<^verbatim>\<open>sys.exit\<close>\<close>



lemma exits_with_raise: "exits_with Q (raise e)"
  by (simp add: exits_with_def raise_def)










lemma is_dict_cases: "is_dict pkg \<Longrightarrow> \<exists>kvs. pkg = PDict kvs"
  by (cases pkg) simp_all









subsection \<open>The first sections on the example host\<close>

lemma report_environment_apply:
  "report_environment h s = (Inr (), s\<lparr>log := log s @ environment_events h\<rparr>)"
  by (simp add: report_environment_def safe_env_dump_def seq_hr seq_print print_apply return_apply
      environment_events_def)

lemma directory_sanity_Dir:
  "fs s = Some (Dir es) \<Longrightarrow>
   directory_sanity s =
     (Inr (),
      s\<lparr>log := log s @ hr_events ''FRONTEND DIRECTORY CONTENTS (SANITY)'' @
          [Print [PStr ''Top-level files:'', PList (map PStr (top_level_files (Dir es)))],
           Print [PStr (CHR 0x0A # ''File listing (trimmed):'')],
           Print [PStr (if ls_tree_entries (Dir es) 250 \<noteq> [] then
                          join [CHR 0x0A] (ls_tree_entries (Dir es) 250)
                        else ''(no files found)'')]]\<rparr>)"
  by (simp add: directory_sanity_def seq_hr seq_print ls_tree_def Let_def print_apply return_apply)

lemma package_json_summary_apply:
  "package_json_summary h s =
     (case child (fs s) ''package.json'' of
        None \<Rightarrow> (Inl (SystemExit 3), s\<lparr>log := log s @ manifest_missing_events\<rparr>)
      | Some (Dir es) \<Rightarrow>
          (Inl (SystemExit 4),
           s\<lparr>log := log s @ hr_events ''PACKAGE.JSON SUMMARY'' @ [parse_failure IsADirectoryError]\<rparr>)
      | Some (File (Inl e)) \<Rightarrow>
          (Inl (SystemExit 4),
           s\<lparr>log := log s @ hr_events ''PACKAGE.JSON SUMMARY'' @ [parse_failure e]\<rparr>)
      | Some (File (Inr body)) \<Rightarrow>
          (case json_loads h body of
             Inl msg \<Rightarrow>
               (Inl (SystemExit 4),
                s\<lparr>log := log s @ hr_events ''PACKAGE.JSON SUMMARY'' @
                    [JsonLoads body, parse_failure (JSONDecodeError msg)]\<rparr>)
           | Inr pkg \<Rightarrow>
               (case pkg of
                  PDict kvs \<Rightarrow>
                    (Inr (),
                     s\<lparr>log := log s @ hr_events ''PACKAGE.JSON SUMMARY'' @
                       [JsonLoads body,
                        Print [PStr ''name:'', (case map_of kvs ''name'' of None \<Rightarrow> PNone | Some v \<Rightarrow> v)],
                        Print [PStr ''type:'', (case map_of kvs ''type'' of None \<Rightarrow> PNone | Some v \<Rightarrow> v)],
                        Print [PStr ''engines:'', (case map_of kvs ''engines'' of None \<Rightarrow> PNone | Some v \<Rightarrow> v)],
                        Print [PStr ''scripts:'',
                          PStr (json_dumps h (case map_of kvs ''scripts'' of None \<Rightarrow> PDict [] | Some v \<Rightarrow> v))]]\<rparr>)
                | _ \<Rightarrow>
                    (Inl (Uncaught AttributeError),
                     s\<lparr>log := log s @ hr_events ''PACKAGE.JSON SUMMARY'' @ [JsonLoads body]\<rparr>))))"
proof (cases "child (fs s) ''package.json''")
  case None
  then show ?thesis by (simp add: package_json_summary_missing)
next
  case (Some t)
  show ?thesis
  proof (cases t)
    case (Dir es)
    with Some show ?thesis by (simp add: package_json_summary_directory)
  next
    case (File content)
    show ?thesis
    proof (cases content)
      case (Inl e)
      with Some File show ?thesis by (simp add: package_json_summary_unreadable)
    next
      case body: (Inr body)
      show ?thesis
      proof (cases "json_loads h body")
        case (Inl msg)
        with Some File body show ?thesis by (simp add: package_json_summary_malformed)
      next
        case (Inr pkg)
        show ?thesis
        proof (cases "is_dict pkg")
          case True
          then obtain kvs where "pkg = PDict kvs" using is_dict_cases by blast
          with Some File body Inr show ?thesis by (simp add: package_json_summary_dict)
        next
          case False
          with Some File body Inr show ?thesis
            by (cases pkg) (simp_all add: package_json_summary_not_dict)
        qed
      qed
    qed
  qed
qed

lemma demo_host_simps:
  "which (demo_host rc out) tool = (if tool = ''node'' \<or> tool = ''npm'' then Some (''/usr/bin/'' @ tool) else None)"
  "exec (demo_host rc out) = demo_exec rc out"
  "json_loads (demo_host rc out) = demo_loads"
  by (simp_all add: demo_host_def)

lemma demo_exec_version:
  "demo_exec rc out [''node'', ''-v''] t = Completed 0 ''10.2.4'' t"
  "demo_exec rc out [''npm'', ''-v''] t = Completed 0 ''10.2.4'' t"
  by (simp_all add: demo_exec_def)

lemma check_tooling_demo:
  "check_tooling (demo_host rc out) s =
     (Inr (),
      s\<lparr>log := log s @ hr_events ''CHECK TOOLING AVAILABILITY'' @
        [Print [PStr ''node: '', PStr ''/usr/bin/node''],
         Print [PStr ''npm: '', PStr ''/usr/bin/npm''],
         Print [PStr ''pnpm: '', PNone],
         Print [PStr ''yarn: '', PNone],
         Print [PStr (dollar_line (demo_host rc out) [''node'', ''-v''])],
         Spawn [''node'', ''-v''], Print [PStr ''10.2.4''],
         Print [PStr (dollar_line (demo_host rc out) [''npm'', ''-v''])],
         Spawn [''npm'', ''-v''], Print [PStr ''10.2.4'']]\<rparr>)"
  apply (simp add: check_tooling_def tools_def print_which_def version_check_def seq_hr seq_print
      demo_host_simps seq_bind_left seq_return bind_def run_apply demo_exec_version return_apply)
  apply (simp add: seq_def bind_def return_apply)
  done

lemma before_manifest_demo:
  "fst (before_manifest (demo_host rc out) (start (Some (Dir es)))) = Inr ()"
  "fs (snd (before_manifest (demo_host rc out) (start (Some (Dir es))))) = Some (Dir es)"
  by (simp_all add: before_manifest_def seq_Inr [OF report_environment_apply]
      seq_Inr [OF check_tooling_demo] directory_sanity_Dir start_def)

subsection \<open>Install and build on the example host\<close>

lemma through_build_unfold:
  "through_build h =
     seq (before_manifest h)
    (seq (package_json_summary h)
    (bind (determine_install_strategy h) (\<lambda>(installer, runner_build).
     seq (install_dependencies h installer) (run_build h runner_build))))"
  by (simp add: through_build_def before_manifest_def seq_assoc)

lemma demo_root_children:
  "child (Some (demo_root (Some body))) ''package.json'' = Some (File (Inr body))"
  "child (Some (demo_root None)) ''package.json'' = None"
  "child (Some (demo_root manifest)) ''pnpm-lock.yaml'' = None"
  "child (Some (demo_root manifest)) ''yarn.lock'' = None"
  "child (Some (demo_root manifest)) ''package-lock.json'' = Some (File (Inr ''{}''))"
  by (simp_all add: demo_root_def split: option.splits)

lemma demo_loads_simps:
  "demo_loads ''{}'' = Inr (PDict [])"
  "demo_loads ''[]'' = Inr (PList [])"
  "demo_loads ''{'' = Inl ''Expecting value''"
  by (simp_all add: demo_loads_def)

lemma demo_exec_npm:
  "demo_exec 0 out [''npm'', ''ci''] t = Completed 0 ''added 1 package'' (add_entries t [(''node_modules'', Dir [])])"
  "rc \<noteq> 0 \<Longrightarrow> demo_exec rc out [''npm'', ''ci''] t = Completed rc ''npm ERR!'' t"
  "demo_exec rc out [''npm'', ''run'', ''build''] t = Completed 0 ''build complete'' (add_entries t out)"
  by (simp_all add: demo_exec_def)

lemma after_manifest_demo:
  assumes "fs s = Some (demo_root (Some ''{}''))"
  shows "fst (seq (package_json_summary (demo_host 0 out))
    (bind (determine_install_strategy (demo_host 0 out)) (\<lambda>(installer, runner_build).
     seq (install_dependencies (demo_host 0 out) installer) (run_build (demo_host 0 out) runner_build))) s) = Inr ()"
   "fs (snd (seq (package_json_summary (demo_host 0 out))
    (bind (determine_install_strategy (demo_host 0 out)) (\<lambda>(installer, runner_build).
     seq (install_dependencies (demo_host 0 out) installer) (run_build (demo_host 0 out) runner_build))) s)) = Some (demo_built out)"
  using assms
  by (simp_all add: seq_def bind_def package_json_summary_apply demo_root_children demo_host_simps
      demo_loads_simps determine_install_strategy_apply Let_def install_strategy_def
      install_dependencies_def run_build_def hr_apply run_apply demo_exec_npm return_apply
      demo_root_def demo_built_def)

lemma through_build_demo:
  "through_build (demo_host 0 out) (start (Some (demo_root (Some ''{}'')))) = (Inr (), demo_after_build out)"
  "fs (demo_after_build out) = Some (demo_built out)"
proof -
  let ?h = "demo_host 0 out"
  let ?s = "start (Some (demo_root (Some ''{}'')))"
  let ?s1 = "snd (before_manifest ?h ?s)"
  have 1: "fst (before_manifest ?h ?s) = Inr ()" and 2: "fs ?s1 = Some (demo_root (Some ''{}''))"
    by (simp_all add: demo_root_def before_manifest_demo)
  have 3: "through_build ?h ?s = seq (package_json_summary ?h)
    (bind (determine_install_strategy ?h) (\<lambda>(installer, runner_build).
     seq (install_dependencies ?h installer) (run_build ?h runner_build))) ?s1"
    using seq_fst_Inr [of "before_manifest ?h" ?s, OF 1] by (simp add: through_build_unfold)
  from after_manifest_demo [OF 2, of out] 3
  have "fst (through_build ?h ?s) = Inr ()" "fs (snd (through_build ?h ?s)) = Some (demo_built out)"
    by simp_all
  then show "through_build ?h ?s = (Inr (), demo_after_build out)"
    "fs (demo_after_build out) = Some (demo_built out)"
    by (simp_all add: demo_after_build_def prod_eq_iff)
qed

subsection \<open>The install strategy, the process executor, the recursive listing\<close>


text \<open>
  C1. The selector of lines 111 to 122 returns the pair of the precedence table for every
  value of the three lockfile flags and of the two \<^verbatim>\<open>shutil.which\<close> results: the pnpm pair when
  the pnpm lockfile exists and pnpm is found (whatever the other flags, so also when the yarn
  lockfile exists too), else the yarn pair when the yarn lockfile exists and yarn is found,
  else the npm pair, with \<^verbatim>\<open>npm ci\<close> exactly when \<^verbatim>\<open>package-lock.json\<close> exists. The section of
  \<^verbatim>\<open>main\<close> returns the selector's pair for the flags read from the tree.
\<close>

theorem install_strategy_precedence:
  "(has_pnpm \<and> which_pnpm \<noteq> None \<longrightarrow>
      install_strategy has_pnpm has_npm has_yarn which_pnpm which_yarn =
        ([''pnpm'', ''install'', ''--frozen-lockfile''], [''pnpm'', ''run'', ''build''])) \<and>
   (\<not> (has_pnpm \<and> which_pnpm \<noteq> None) \<and> has_yarn \<and> which_yarn \<noteq> None \<longrightarrow>
      install_strategy has_pnpm has_npm has_yarn which_pnpm which_yarn =
        ([''yarn'', ''install'', ''--frozen-lockfile''], [''yarn'', ''build''])) \<and>
   (\<not> (has_pnpm \<and> which_pnpm \<noteq> None) \<and> \<not> (has_yarn \<and> which_yarn \<noteq> None) \<longrightarrow>
      install_strategy has_pnpm has_npm has_yarn which_pnpm which_yarn =
        ((if has_npm then [''npm'', ''ci''] else [''npm'', ''install'']), [''npm'', ''run'', ''build''])) \<and>
   fst (determine_install_strategy h s) =
     Inr (install_strategy (exists (child (fs s) ''pnpm-lock.yaml''))
            (exists (child (fs s) ''package-lock.json'')) (exists (child (fs s) ''yarn.lock''))
            (which h ''pnpm'') (which h ''yarn''))"
  by (simp add: install_strategy_def determine_install_strategy_apply Let_def)

theorem install_strategy_precedence_witness:
  "install_strategy True True True (Some ''/usr/bin/pnpm'') (Some ''/usr/bin/yarn'') =
     ([''pnpm'', ''install'', ''--frozen-lockfile''], [''pnpm'', ''run'', ''build'']) \<and>
   install_strategy True True True None (Some ''/usr/bin/yarn'') =
     ([''yarn'', ''install'', ''--frozen-lockfile''], [''yarn'', ''build'']) \<and>
   install_strategy True True True None None = ([''npm'', ''ci''], [''npm'', ''run'', ''build'']) \<and>
   install_strategy True False True None None = ([''npm'', ''install''], [''npm'', ''run'', ''build'']) \<and>
   fst (determine_install_strategy all_tools_host (start (Some lockfiles_root))) =
     Inr ([''pnpm'', ''install'', ''--frozen-lockfile''], [''pnpm'', ''run'', ''build''])"
proof -
  note t = install_strategy_precedence
  have a: "install_strategy True True True (Some ''/usr/bin/pnpm'') (Some ''/usr/bin/yarn'') =
     ([''pnpm'', ''install'', ''--frozen-lockfile''], [''pnpm'', ''run'', ''build''])"
    using t [of True "Some ''/usr/bin/pnpm''" True True "Some ''/usr/bin/yarn''"] by simp
  have b: "install_strategy True True True None (Some ''/usr/bin/yarn'') =
     ([''yarn'', ''install'', ''--frozen-lockfile''], [''yarn'', ''build''])"
    using t [of True None True True "Some ''/usr/bin/yarn''"] by simp
  have c: "install_strategy True True True None None = ([''npm'', ''ci''], [''npm'', ''run'', ''build''])"
    using t [of True None True True None] by simp
  have d: "install_strategy True False True None None = ([''npm'', ''install''], [''npm'', ''run'', ''build''])"
    using t [of True None False True None] by simp
  have e: "fst (determine_install_strategy all_tools_host (start (Some lockfiles_root))) =
     Inr ([''pnpm'', ''install'', ''--frozen-lockfile''], [''pnpm'', ''run'', ''build''])"
    using t [of True "Some ''/usr/bin/pnpm''" True True "Some ''/usr/bin/yarn''"
        all_tools_host "start (Some lockfiles_root)"]
    by (simp add: all_tools_host_def lockfiles_root_def start_def)
  from a b c d e show ?thesis by simp
qed



lemma demo_tree_listing:
  "ls_tree_entries demo_tree 250 =
     [''index/a.js'', ''index.html'', ''package.json'', ''src/app.css'', ''src/main.js'']"
  by code_simp

text \<open>The order is that of the paths, not of their strings: \<^verbatim>\<open>index/a.js\<close> comes before
  \<^verbatim>\<open>index.html\<close>, since the segment \<^verbatim>\<open>index\<close> is a prefix of \<^verbatim>\<open>index.html\<close>, although as plain
  strings they compare the other way (the separator comes after the dot).\<close>

lemma path_order_is_not_string_order:
  "[''index'', ''a.js''] < [''index.html''] \<and> path_str [''index.html''] < path_str [''index'', ''a.js'']"
  by (simp add: path_str_def)

text \<open>
  C6, as stated, fails on a project with a directory \<^verbatim>\<open>index\<close> next to a file
  \<^verbatim>\<open>index.html\<close>: the listing has \<^verbatim>\<open>index/a.js\<close> before \<^verbatim>\<open>index.html\<close>, and is not in
  lexicographic order.
\<close>

theorem ls_tree_not_in_string_order:
  "wf_node demo_tree \<and>
   ls_tree_entries demo_tree 250 =
     [''index/a.js'', ''index.html'', ''package.json'', ''src/app.css'', ''src/main.js''] \<and>
   ''index.html'' < ''index/a.js'' \<and>
   \<not> sorted (ls_tree_entries demo_tree 250)"
proof -
  have wf: "wf_node demo_tree" by (simp add: demo_tree_def)
  have lt: "''index.html'' < ''index/a.js''" by simp
  then have "\<not> ''index/a.js'' \<le> ''index.html''" by (simp only: not_le)
  then have "\<not> sorted (ls_tree_entries demo_tree 250)" by (simp add: demo_tree_listing)
  with wf lt show ?thesis by (simp add: demo_tree_listing)
qed

theorem ls_tree_excludes_and_sorted_witness:
  "wf_node demo_tree \<and>
   ls_tree_entries demo_tree 250 =
     [''index/a.js'', ''index.html'', ''package.json'', ''src/app.css'', ''src/main.js''] \<and>
   first_segment ''index/a.js'' \<notin> set excluded_names"
proof -
  have wf: "wf_node demo_tree" by (simp add: demo_tree_def)
  have ev: "ls_tree_entries demo_tree 250 =
     [''index/a.js'', ''index.html'', ''package.json'', ''src/app.css'', ''src/main.js'']"
    by (rule demo_tree_listing)
  then have "''index/a.js'' \<in> set (ls_tree_entries demo_tree 250)" by simp
  with ls_tree_excludes_and_sorted [OF wf, of 250]
  have "first_segment ''index/a.js'' \<notin> set excluded_names" by blast
  with wf ev show ?thesis by simp
qed

subsection \<open>The publish directory\<close>

lemma locate_never_next: "fst (locate_build_output s) \<noteq> Inr ''.next''"
  by (simp add: locate_build_output_apply)

lemma not_rule_line: "hd s \<noteq> c \<Longrightarrow> s \<noteq> replicate 72 c"
  by auto

lemma listing_title_not_in_locate:
  "Print [PStr ''PUBLISH DIRECTORY LISTING (TOP)''] \<notin>
     set (locate_events root @ next_note @ [no_output_error])"
  by (simp add: locate_events_def hr_events_def next_note_def no_output_error_def not_rule_line)

text \<open>
  C2. After a build that succeeded (the run reached line 133 in state \<open>s1\<close>): when
  \<^verbatim>\<open>dist\<close> is a directory the run goes on to list \<^verbatim>\<open>dist\<close>, also when \<^verbatim>\<open>build\<close> exists; when
  only \<^verbatim>\<open>build\<close> is a directory it goes on to list \<^verbatim>\<open>build\<close>; when neither is, the run prints the
  candidates found, the note about \<^verbatim>\<open>next export\<close> exactly when \<^verbatim>\<open>.next\<close> is a directory, the error
  line, and stops with \<^verbatim>\<open>sys.exit(5)\<close>: the title of the listing section is not among these
  prints. \<^verbatim>\<open>.next\<close> is never the publish directory.
\<close>

theorem publish_directory_selection:
  assumes "through_build h (start root) = (Inr (), s1)"
  shows "(is_dir (child (fs s1) ''dist'') \<longrightarrow>
            main h (start root) =
              seq (publish_directory_listing ''dist'') success
                (s1\<lparr>log := log s1 @ locate_events (fs s1)\<rparr>)) \<and>
         (\<not> is_dir (child (fs s1) ''dist'') \<and> is_dir (child (fs s1) ''build'') \<longrightarrow>
            main h (start root) =
              seq (publish_directory_listing ''build'') success
                (s1\<lparr>log := log s1 @ locate_events (fs s1)\<rparr>)) \<and>
         (\<not> is_dir (child (fs s1) ''dist'') \<and> \<not> is_dir (child (fs s1) ''build'') \<longrightarrow>
            main h (start root) =
              (Inl (SystemExit 5),
               s1\<lparr>log := log s1 @ locate_events (fs s1) @
                  (if is_dir (child (fs s1) ''.next'') then next_note else []) @
                  [no_output_error]\<rparr>)) \<and>
         Print [PStr ''PUBLISH DIRECTORY LISTING (TOP)''] \<notin>
           set (locate_events (fs s1) @ next_note @ [no_output_error]) \<and>
         fst (locate_build_output s1) \<noteq> Inr ''.next''"
  by (simp add: main_after_through_build [OF assms] bind_def locate_build_output_apply
      listing_title_not_in_locate del: set_append)

lemma demo_built_children:
  "child (Some (demo_built out)) name =
     (if name = ''package.json'' \<or> name = ''package-lock.json'' then Some (File (Inr ''{}''))
      else if name = ''src'' then Some (Dir [(''main.js'', File (Inr []))])
      else if name = ''node_modules'' then Some (Dir [])
      else map_of out name)"
  by (simp add: demo_built_def)

theorem publish_directory_selection_witness:
  "through_build (demo_host 0 [(''.next'', Dir [])]) (start (Some (demo_root (Some ''{}'')))) =
     (Inr (), demo_after_build [(''.next'', Dir [])]) \<and>
   main (demo_host 0 [(''.next'', Dir [])]) (start (Some (demo_root (Some ''{}'')))) =
     (Inl (SystemExit 5),
      (demo_after_build [(''.next'', Dir [])])
        \<lparr>log := log (demo_after_build [(''.next'', Dir [])]) @
           locate_events (Some (demo_built [(''.next'', Dir [])])) @ next_note @ [no_output_error]\<rparr>) \<and>
   through_build (demo_host 0 [(''build'', Dir []), (''dist'', Dir [])])
       (start (Some (demo_root (Some ''{}'')))) =
     (Inr (), demo_after_build [(''build'', Dir []), (''dist'', Dir [])]) \<and>
   main (demo_host 0 [(''build'', Dir []), (''dist'', Dir [])]) (start (Some (demo_root (Some ''{}'')))) =
     seq (publish_directory_listing ''dist'') success
       ((demo_after_build [(''build'', Dir []), (''dist'', Dir [])])
          \<lparr>log := log (demo_after_build [(''build'', Dir []), (''dist'', Dir [])]) @
             locate_events (Some (demo_built [(''build'', Dir []), (''dist'', Dir [])]))\<rparr>) \<and>
   main (demo_host 0 [(''build'', Dir [])]) (start (Some (demo_root (Some ''{}'')))) =
     seq (publish_directory_listing ''build'') success
       ((demo_after_build [(''build'', Dir [])])
          \<lparr>log := log (demo_after_build [(''build'', Dir [])]) @
             locate_events (Some (demo_built [(''build'', Dir [])]))\<rparr>)"
proof -
  note t1 = publish_directory_selection [OF through_build_demo(1) [of "[(''.next'', Dir [])]"]]
  note t2 = publish_directory_selection
    [OF through_build_demo(1) [of "[(''build'', Dir []), (''dist'', Dir [])]"]]
  note t3 = publish_directory_selection [OF through_build_demo(1) [of "[(''build'', Dir [])]"]]
  have a: "main (demo_host 0 [(''.next'', Dir [])]) (start (Some (demo_root (Some ''{}'')))) =
     (Inl (SystemExit 5),
      (demo_after_build [(''.next'', Dir [])])
        \<lparr>log := log (demo_after_build [(''.next'', Dir [])]) @
           locate_events (Some (demo_built [(''.next'', Dir [])])) @ next_note @ [no_output_error]\<rparr>)"
    using t1 by (simp add: through_build_demo(2) demo_built_children)
  have b: "main (demo_host 0 [(''build'', Dir []), (''dist'', Dir [])]) (start (Some (demo_root (Some ''{}'')))) =
     seq (publish_directory_listing ''dist'') success
       ((demo_after_build [(''build'', Dir []), (''dist'', Dir [])])
          \<lparr>log := log (demo_after_build [(''build'', Dir []), (''dist'', Dir [])]) @
             locate_events (Some (demo_built [(''build'', Dir []), (''dist'', Dir [])]))\<rparr>)"
    using t2 by (simp add: through_build_demo(2) demo_built_children)
  have c: "main (demo_host 0 [(''build'', Dir [])]) (start (Some (demo_root (Some ''{}'')))) =
     seq (publish_directory_listing ''build'') success
       ((demo_after_build [(''build'', Dir [])])
          \<lparr>log := log (demo_after_build [(''build'', Dir [])]) @
             locate_events (Some (demo_built [(''build'', Dir [])]))\<rparr>)"
    using t3 by (simp add: through_build_demo(2) demo_built_children)
  from a b c through_build_demo(1) show ?thesis by simp
qed










text \<open>
  C10. When the run reaches line 133 and the publish directory chosen has no file below it,
  nothing is reported as an error: the listing printed is the placeholder
  \<^verbatim>\<open>(empty output dir)\<close>, the success section follows, and \<^verbatim>\<open>main\<close> returns (exit status 0).
\<close>

theorem empty_publish_directory_succeeds:
  assumes "through_build h (start root) = (Inr (), s1)"
    and "fst (locate_build_output s1) = Inr publish_dir"
    and "child (fs s1) publish_dir = Some d"
    and "dir_files d = []"
  shows "main h (start root) =
           (Inr (), s1\<lparr>log := log s1 @ locate_events (fs s1) @
              listing_events publish_dir [] @ success_events\<rparr>) \<and>
         exit_code (fst (main h (start root))) = 0 \<and>
         last (listing_events publish_dir []) = Print [PStr ''(empty output dir)'']"
proof -
  have out: "publish_out_files (Some d) = []"
    using assms(4) by (simp add: publish_out_files_small)
  from main_published [OF assms(1,2)] assms(3) out show ?thesis
    by (simp add: listing_events_def)
qed

theorem empty_publish_directory_succeeds_witness:
  "through_build (demo_host 0 empty_dist_out) (start (Some (demo_root (Some ''{}'')))) =
     (Inr (), demo_after_build empty_dist_out) \<and>
   fst (locate_build_output (demo_after_build empty_dist_out)) = Inr ''dist'' \<and>
   child (fs (demo_after_build empty_dist_out)) ''dist'' = Some (Dir [(''assets'', Dir [])]) \<and>
   dir_files (Dir [(''assets'', Dir [])]) = [] \<and>
   main (demo_host 0 empty_dist_out) (start (Some (demo_root (Some ''{}'')))) =
     (Inr (), (demo_after_build empty_dist_out)
        \<lparr>log := log (demo_after_build empty_dist_out) @
           locate_events (Some (demo_built empty_dist_out)) @
           listing_events ''dist'' [] @ success_events\<rparr>) \<and>
   exit_code (fst (main (demo_host 0 empty_dist_out) (start (Some (demo_root (Some ''{}'')))))) = 0"
proof -
  have c: "child (fs (demo_after_build empty_dist_out)) ''dist'' = Some (Dir [(''assets'', Dir [])])"
    by (simp add: through_build_demo(2) demo_built_children empty_dist_out_def)
  have l: "fst (locate_build_output (demo_after_build empty_dist_out)) = Inr ''dist''"
    by (simp add: locate_build_output_apply c)
  have e: "dir_files (Dir [(''assets'', Dir [])]) = []" by code_simp
  from empty_publish_directory_succeeds [OF through_build_demo(1) l c e] through_build_demo(1) c l e
  show ?thesis by (simp add: through_build_demo(2))
qed

subsection \<open>The manifest\<close>

lemma before_manifest_demo_state:
  "before_manifest (demo_host rc []) (start (Some (demo_root manifest))) =
     (Inr (), demo_before_manifest rc manifest)"
  "fs (demo_before_manifest rc manifest) = Some (demo_root manifest)"
proof -
  obtain es where es: "demo_root manifest = Dir es" by (simp add: demo_root_def)
  from before_manifest_demo [of rc "[]" es]
  show "before_manifest (demo_host rc []) (start (Some (demo_root manifest))) =
     (Inr (), demo_before_manifest rc manifest)"
    "fs (demo_before_manifest rc manifest) = Some (demo_root manifest)"
    by (simp_all add: es demo_before_manifest_def prod_eq_iff)
qed

lemma quiet_hr_events: "list_all quiet (hr_events title)"
  by (simp add: hr_events_def)

text \<open>
  C3. Let the run reach line 81 in state \<open>s1\<close>. When \<^verbatim>\<open>package.json\<close> does not exist, the run
  prints the error section and stops with \<^verbatim>\<open>sys.exit(3)\<close>. When it is a file whose text
  \<^verbatim>\<open>json.loads\<close> rejects with message \<open>msg\<close>, the run prints the section title, calls
  \<^verbatim>\<open>json.loads\<close>, prints the failure with the message, and stops with \<^verbatim>\<open>sys.exit(4)\<close>. Up to
  \<open>s1\<close>, and in the error section, every event is a print or the spawn of a version check:
  no \<^verbatim>\<open>json.loads\<close> before the exit with 3, no install and no build in either case.
\<close>

theorem manifest_missing_or_malformed:
  assumes "before_manifest h (start root) = (Inr (), s1)"
  shows "(\<not> exists (child (fs s1) ''package.json'') \<longrightarrow>
            main h (start root) =
              (Inl (SystemExit 3), s1\<lparr>log := log s1 @ manifest_missing_events\<rparr>)) \<and>
         (child (fs s1) ''package.json'' = Some (File (Inr body)) \<and> json_loads h body = Inl msg \<longrightarrow>
            main h (start root) =
              (Inl (SystemExit 4),
               s1\<lparr>log := log s1 @ hr_events ''PACKAGE.JSON SUMMARY'' @
                  [JsonLoads body, parse_failure (JSONDecodeError msg)]\<rparr>)) \<and>
         list_all quiet (log s1) \<and> list_all quiet manifest_missing_events \<and>
         list_all quiet (hr_events ''PACKAGE.JSON SUMMARY'')"
proof -
  have a: "main h (start root) =
      (Inl (SystemExit 3), s1\<lparr>log := log s1 @ manifest_missing_events\<rparr>)"
    if "\<not> exists (child (fs s1) ''package.json'')"
    using that
    by (simp add: main_after_before_manifest [OF assms]
        seq_Inl [OF package_json_summary_missing])
  have b: "main h (start root) =
      (Inl (SystemExit 4),
       s1\<lparr>log := log s1 @ hr_events ''PACKAGE.JSON SUMMARY'' @
          [JsonLoads body, parse_failure (JSONDecodeError msg)]\<rparr>)"
    if "child (fs s1) ''package.json'' = Some (File (Inr body))" "json_loads h body = Inl msg"
    using that
    by (simp add: main_after_before_manifest [OF assms]
        seq_Inl [OF package_json_summary_malformed])
  have c: "list_all quiet (log s1)" using assms by (rule before_manifest_log)
  have d: "list_all quiet manifest_missing_events"
    by (simp add: manifest_missing_events_def quiet_hr_events)
  from a b c d show ?thesis by (simp add: quiet_hr_events)
qed

theorem manifest_missing_or_malformed_witness:
  "before_manifest (demo_host 0 []) (start (Some (demo_root None))) =
     (Inr (), demo_before_manifest 0 None) \<and>
   main (demo_host 0 []) (start (Some (demo_root None))) =
     (Inl (SystemExit 3),
      (demo_before_manifest 0 None)
        \<lparr>log := log (demo_before_manifest 0 None) @ manifest_missing_events\<rparr>) \<and>
   child (fs (demo_before_manifest 0 (Some ''{''))) ''package.json'' = Some (File (Inr ''{'')) \<and>
   json_loads (demo_host 0 []) ''{'' = Inl ''Expecting value'' \<and>
   main (demo_host 0 []) (start (Some (demo_root (Some ''{'')))) =
     (Inl (SystemExit 4),
      (demo_before_manifest 0 (Some ''{''))
        \<lparr>log := log (demo_before_manifest 0 (Some ''{'')) @ hr_events ''PACKAGE.JSON SUMMARY'' @
           [JsonLoads ''{'', parse_failure (JSONDecodeError ''Expecting value'')]\<rparr>)"
proof -
  note t1 = manifest_missing_or_malformed [OF before_manifest_demo_state(1) [of 0 None]]
  note t2 = manifest_missing_or_malformed [OF before_manifest_demo_state(1) [of 0 "Some ''{''"],
      of "''{''" "''Expecting value''"]
  have c: "child (fs (demo_before_manifest 0 (Some ''{''))) ''package.json'' = Some (File (Inr ''{''))"
    by (simp add: before_manifest_demo_state(2) demo_root_children)
  have n: "\<not> exists (child (fs (demo_before_manifest 0 None)) ''package.json'')"
    by (simp add: before_manifest_demo_state(2) demo_root_children)
  have j: "json_loads (demo_host 0 []) ''{'' = Inl ''Expecting value''"
    by (simp add: demo_host_simps demo_loads_simps)
  from t1 n have a: "main (demo_host 0 []) (start (Some (demo_root None))) =
     (Inl (SystemExit 3),
      (demo_before_manifest 0 None)
        \<lparr>log := log (demo_before_manifest 0 None) @ manifest_missing_events\<rparr>)"
    by blast
  from t2 c j have b: "main (demo_host 0 []) (start (Some (demo_root (Some ''{'')))) =
     (Inl (SystemExit 4),
      (demo_before_manifest 0 (Some ''{''))
        \<lparr>log := log (demo_before_manifest 0 (Some ''{'')) @ hr_events ''PACKAGE.JSON SUMMARY'' @
           [JsonLoads ''{'', parse_failure (JSONDecodeError ''Expecting value'')]\<rparr>)"
    by blast
  from a b c j before_manifest_demo_state(1) [of 0 None] show ?thesis by simp
qed






subsection \<open>The bounds of the two listings of the root directory\<close>

lemma ls_tree_entries_bound:
  "0 < n \<Longrightarrow>
   ls_tree_entries t n =
     (if length (listable t) < n then map path_str (listable t)
      else map path_str (take n (listable t)) @ [truncated])"
  by (simp add: ls_tree_entries_def ls_tree_loop_exact listable_def Let_def take_map)

lemma replicate_le: "m \<le> n \<Longrightarrow> replicate m (c::char) \<le> replicate n c"
proof (induction m arbitrary: n)
  case 0
  show ?case by simp
next
  case (Suc m)
  then obtain n' where "n = Suc n'" "m \<le> n'" by (cases n) auto
  with Suc.IH [of n'] show ?case by simp
qed

lemma sorted_a_names: "sorted (a_names k)"
  unfolding a_names_def
  by (simp add: sorted_iff_nth_mono replicate_le)

lemma length_a_names: "length (a_names k) = k"
  by (simp add: a_names_def)

lemma distinct_a_names: "distinct (a_names k)"
  unfolding a_names_def
proof (rule iffD2 [OF distinct_map], intro conjI inj_onI)
  show "distinct [0..<k]" by simp
next
  fix i j
  assume "replicate (Suc i) (CHR ''a'') = replicate (Suc j) (CHR ''a'')"
  then have "length (replicate (Suc i) (CHR ''a'')) = length (replicate (Suc j) (CHR ''a''))"
    by (rule arg_cong)
  then show "i = j" by simp
qed

lemma a_name_props:
  assumes "name \<in> set (a_names k)"
  shows "name \<noteq> []" "CHR ''/'' \<notin> set name" "name \<notin> set excluded_names"
  using assms by (auto simp: a_names_def excluded_names_def)

lemma take_a_names: "m \<le> k \<Longrightarrow> take m (a_names k) = a_names m"
  by (simp add: a_names_def take_map take_upt)

lemma iterdir_many_files: "iterdir (many_files k) = a_names k"
  by (simp add: many_files_def comp_def)

lemma rglob_entries_files:
  "rglob_entries (map (\<lambda>name. (name, File c)) names) = map (\<lambda>name. [name]) names"
  by (induction names) simp_all

lemma rglob_many_files: "rglob (many_files k) = map (\<lambda>name. [name]) (a_names k)"
  by (simp add: many_files_def rglob_entries_files)

lemma wf_entries_files:
  "(\<And>name. name \<in> set names \<Longrightarrow> name \<noteq> [] \<and> CHR ''/'' \<notin> set name) \<Longrightarrow>
   wf_entries (map (\<lambda>name. (name, File c)) names)"
  by (induction names) simp_all

lemma wf_many_files: "wf_node (many_files k)"
  by (simp add: many_files_def comp_def distinct_a_names wf_entries_files a_name_props)

lemma sorted_singletons: "sorted (names :: string list) \<Longrightarrow> sorted (map (\<lambda>name. [name]) names)"
  by (induction names) auto

lemma sort_rglob_many_files: "sort (rglob (many_files k)) = map (\<lambda>name. [name]) (a_names k)"
  by (simp add: rglob_many_files sorted_sort_id sorted_singletons sorted_a_names)

lemma lookup_many_files: "\<not> is_dir (lookup (many_files k) [name])"
proof (cases "map_of (map (\<lambda>name. (name, File (Inr []))) (a_names k)) name")
  case None
  then show ?thesis by (simp add: many_files_def)
next
  case (Some c)
  then have "(name, c) \<in> set (map (\<lambda>name. (name, File (Inr []))) (a_names k))" by (rule map_of_SomeD)
  then have "c = File (Inr [])" by auto
  with Some show ?thesis by (simp add: many_files_def)
qed

lemma listable_many_files: "listable (many_files k) = map (\<lambda>name. [name]) (a_names k)"
proof -
  have "filter (\<lambda>rel. \<not> (rel \<noteq> [] \<and> hd rel \<in> set excluded_names) \<and>
                      \<not> is_dir (lookup (many_files k) rel))
          (map (\<lambda>name. [name]) (a_names k)) = map (\<lambda>name. [name]) (a_names k)"
    by (rule filter_True) (auto simp: a_name_props lookup_many_files)
  then show ?thesis by (simp add: listable_def sort_rglob_many_files)
qed

lemma path_str_singletons: "map (path_str \<circ> (\<lambda>name. [name])) names = names"
  by (induction names) (simp_all add: path_str_def)

text \<open>
  C5. The recursive listing at the bound: a well-formed directory holding exactly 250
  files, none excluded. All 250 are listed, nothing is cut off, and the truncation marker
  is appended all the same: line 46 tests \<^verbatim>\<open>len(entries) >= max_entries\<close> after the append,
  without looking whether a further entry follows.
\<close>

theorem ls_tree_marker_at_250_files:
  "wf_node (many_files 250) \<and>
   length (listable (many_files 250)) = 250 \<and>
   map path_str (listable (many_files 250)) = a_names 250 \<and>
   ls_tree_entries (many_files 250) 250 = a_names 250 @ [truncated]"
  by (simp add: wf_many_files ls_tree_entries_bound listable_many_files length_a_names
      path_str_singletons)

text \<open>
  C8, as stated, fails on a directory of 81 entries: the listing of line 77 is the first 80
  names, the 81st is missing and nothing stands in its place.
\<close>

theorem top_level_listing_cut_silently:
  "iterdir (many_files 81) = a_names 81 \<and> length (a_names 81) = 81 \<and>
   top_level_files (many_files 81) = a_names 80 \<and> length (a_names 80) = 80 \<and>
   replicate 81 (CHR ''a'') \<in> set (a_names 81) \<and>
   replicate 81 (CHR ''a'') \<notin> set (a_names 80) \<and>
   truncated \<notin> set (a_names 80) \<and>
   directory_sanity (start (Some (many_files 81))) =
     (Inr (),
      \<lparr>fs = Some (many_files 81),
       log = hr_events ''FRONTEND DIRECTORY CONTENTS (SANITY)'' @
         [Print [PStr ''Top-level files:'', PList (map PStr (a_names 80))],
          Print [PStr (CHR 0x0A # ''File listing (trimmed):'')],
          Print [PStr (join [CHR 0x0A] (a_names 81))]]\<rparr>)"
proof -
  have top: "top_level_files (many_files 81) = a_names 80"
    by (simp add: top_level_files_def iterdir_many_files sorted_sort_id sorted_a_names take_a_names)
  have in81: "replicate 81 (CHR ''a'') \<in> set (a_names 81)"
  proof -
    have "replicate 81 (CHR ''a'') = replicate (Suc 80) (CHR ''a'')" by simp
    moreover have "(80::nat) \<in> set [0..<81]" by simp
    ultimately have "replicate 81 (CHR ''a'') \<in> (\<lambda>i. replicate (Suc i) (CHR ''a'')) ` set [0..<81]"
      by (rule image_eqI)
    then show ?thesis by (simp add: a_names_def)
  qed
  have out80: "replicate 81 (CHR ''a'') \<notin> set (a_names 80)"
  proof
    assume "replicate 81 (CHR ''a'') \<in> set (a_names 80)"
    then obtain i where "i < 80" "replicate 81 (CHR ''a'') = replicate (Suc i) (CHR ''a'')"
      by (auto simp: a_names_def)
    then have "length (replicate 81 (CHR ''a'')) = length (replicate (Suc i) (CHR ''a''))" by simp
    with \<open>i < 80\<close> show False by simp
  qed
  have tr: "truncated \<notin> set (a_names 80)"
    by (auto simp: a_names_def truncated_def)
  have ls: "ls_tree_entries (many_files 81) 250 = a_names 81"
    by (simp add: ls_tree_entries_bound listable_many_files length_a_names path_str_singletons)
  have ne: "a_names 81 \<noteq> []" using length_a_names [of 81] by auto
  obtain es where es: "many_files 81 = Dir es" by (simp add: many_files_def)
  have "fs (start (Some (many_files 81))) = Some (Dir es)" by (simp add: start_def es)
  from directory_sanity_Dir [OF this]
  have ds: "directory_sanity (start (Some (many_files 81))) =
     (Inr (),
      \<lparr>fs = Some (many_files 81),
       log = hr_events ''FRONTEND DIRECTORY CONTENTS (SANITY)'' @
         [Print [PStr ''Top-level files:'', PList (map PStr (a_names 80))],
          Print [PStr (CHR 0x0A # ''File listing (trimmed):'')],
          Print [PStr (join [CHR 0x0A] (a_names 81))]]\<rparr>)"
    using top ls ne by (simp add: es [symmetric] start_def)
  from top in81 out80 tr ds show ?thesis
    by (simp add: iterdir_many_files length_a_names)
qed

text \<open>
  C8, amended. The top-level listing of line 77 is the first 80 names of the root directory
  in sorted order, all of them when there are at most 80: it is a prefix of the sorted names,
  of length \<open>min 80 n\<close>, so every item is the name of an entry and nothing is appended when
  names are cut off.
\<close>

theorem top_level_listing_bound:
  assumes "fs s = Some (Dir es)"
  shows "directory_sanity s =
           (Inr (),
            s\<lparr>log := log s @ hr_events ''FRONTEND DIRECTORY CONTENTS (SANITY)'' @
               [Print [PStr ''Top-level files:'', PList (map PStr (top_level_files (Dir es)))],
                Print [PStr (CHR 0x0A # ''File listing (trimmed):'')],
                Print [PStr (if ls_tree_entries (Dir es) 250 \<noteq> [] then
                               join [CHR 0x0A] (ls_tree_entries (Dir es) 250)
                             else ''(no files found)'')]]\<rparr>) \<and>
         length (top_level_files (Dir es)) = min 80 (length es) \<and>
         prefix (top_level_files (Dir es)) (sort (iterdir (Dir es))) \<and>
         set (top_level_files (Dir es)) \<subseteq> set (iterdir (Dir es))"
proof -
  have "set (top_level_files (Dir es)) \<subseteq> set (sort (iterdir (Dir es)))"
    unfolding top_level_files_def by (rule set_take_subset)
  then have "set (top_level_files (Dir es)) \<subseteq> set (iterdir (Dir es))" by simp
  moreover have "prefix (top_level_files (Dir es)) (sort (iterdir (Dir es)))"
    unfolding top_level_files_def by (rule take_is_prefix)
  moreover have "length (top_level_files (Dir es)) = min 80 (length es)"
    by (simp add: top_level_files_def min.commute)
  ultimately show ?thesis using directory_sanity_Dir [OF assms] by simp
qed

theorem top_level_listing_bound_witness:
  "fs (start (Some demo_tree)) = Some demo_tree \<and>
   top_level_files demo_tree =
     [''dist'', ''index'', ''index.html'', ''node_modules'', ''package.json'', ''src''] \<and>
   length (top_level_files demo_tree) = 6 \<and>
   fst (directory_sanity (start (Some demo_tree))) = Inr ()"
proof -
  obtain es where es: "demo_tree = Dir es" "length es = 6" by (simp add: demo_tree_def)
  have f: "fs (start (Some demo_tree)) = Some (Dir es)" by (simp add: start_def es)
  have t: "top_level_files demo_tree =
     [''dist'', ''index'', ''index.html'', ''node_modules'', ''package.json'', ''src'']"
    by code_simp
  from top_level_listing_bound [OF f] have
    "fst (directory_sanity (start (Some demo_tree))) = Inr ()"
    "length (top_level_files demo_tree) = 6"
    by (simp_all add: es)
  with f t show ?thesis by (simp add: es)
qed

end
